theory Spec2Isabelle
  imports Main
begin

section \<open>JavaScript values carried by the chat server\<close>

text \<open>
  The chat server (the Node.js program stored after the schema in \<^verbatim>\<open>database.sql\<close>)
  receives user ids from its clients as JSON: a number, a string, or nothing at all. The
  model keeps that distinction, because the server compares ids with \<^verbatim>\<open>==\<close>, with
  \<^verbatim>\<open>Array.prototype.includes\<close> and through SQL, which differ on it.

  Numbers are the integers (ids are \<^verbatim>\<open>INT\<close> keys of the \<^verbatim>\<open>users\<close> table), written
  in decimal; \<open>None\<close> stands for \<^verbatim>\<open>NaN\<close> where a conversion has no numeric result.
\<close>

datatype jsval = JNum int | JStr string | JUndefined | JNull

subsection \<open>Number to string\<close>

definition digit_char :: "nat \<Rightarrow> char" where
  "digit_char d = char_of (48 + d)"

definition digit_val :: "char \<Rightarrow> nat" where
  "digit_val c = of_char c - 48"

definition is_digit :: "char \<Rightarrow> bool" where
  "is_digit c = (48 \<le> (of_char c :: nat) \<and> (of_char c :: nat) \<le> 57)"

fun dec_digits :: "nat \<Rightarrow> string" where
  "dec_digits n =
     (if n < 10 then [digit_char n] else dec_digits (n div 10) @ [digit_char (n mod 10)])"

declare dec_digits.simps [simp del]

definition dec_value :: "string \<Rightarrow> nat" where
  "dec_value s = foldl (\<lambda>a c. 10 * a + digit_val c) 0 s"

text \<open>\<^verbatim>\<open>Number.prototype.toString\<close> on an integer, and on \<^verbatim>\<open>NaN\<close>.\<close>

definition int_to_string :: "int \<Rightarrow> string" where
  "int_to_string i = (if i < 0 then CHR ''-'' # dec_digits (nat (- i)) else dec_digits (nat i))"

definition number_to_string :: "int option \<Rightarrow> string" where
  "number_to_string n = (case n of None \<Rightarrow> ''NaN'' | Some i \<Rightarrow> int_to_string i)"

subsection \<open>String to number\<close>

text \<open>
  \<^verbatim>\<open>ToNumber\<close> on a string strips white space, reads the empty string as 0 and a signed
  run of decimal digits as its value. The other numeric literals (fractions, exponents,
  radix prefixes, \<^verbatim>\<open>Infinity\<close>) and values beyond the safe integers are outside the
  model: \<open>string_to_number\<close> is \<^verbatim>\<open>ToNumber\<close> on text that is white space around an
  optionally signed run of decimal digits with a value among the safe integers, and on
  text that is no numeric literal at all, and the statements about \<^verbatim>\<open>==\<close> are made for
  such ids only (\<open>decimal_id\<close> below).
\<close>

definition is_space :: "char \<Rightarrow> bool" where
  "is_space c = (c = CHR '' '' \<or> c = CHR 0x09 \<or> c = CHR 0x0A \<or> c = CHR 0x0B
                 \<or> c = CHR 0x0C \<or> c = CHR 0x0D)"

definition trim :: "string \<Rightarrow> string" where
  "trim s = rev (dropWhile is_space (rev (dropWhile is_space s)))"

definition unsigned_number :: "string \<Rightarrow> nat option" where
  "unsigned_number s = (if s \<noteq> [] \<and> list_all is_digit s then Some (dec_value s) else None)"

definition string_to_number :: "string \<Rightarrow> int option" where
  "string_to_number s =
     (case trim s of
        [] \<Rightarrow> Some 0
      | c # cs \<Rightarrow>
          if c = CHR ''-'' then map_option (\<lambda>n. - int n) (unsigned_number cs)
          else if c = CHR ''+'' then map_option int (unsigned_number cs)
          else map_option int (unsigned_number (c # cs)))"

fun to_number :: "jsval \<Rightarrow> int option" where
  "to_number (JNum n) = Some n"
| "to_number (JStr s) = string_to_number s"
| "to_number JUndefined = None"
| "to_number JNull = Some 0"

subsection \<open>Comparisons\<close>

text \<open>
  \<^verbatim>\<open>x == y\<close>: values of one type compare strictly; \<^verbatim>\<open>null\<close> and \<^verbatim>\<open>undefined\<close> equal
  each other and nothing else; a number and a string compare after the string is
  converted to a number.
\<close>

fun loose_eq :: "jsval \<Rightarrow> jsval \<Rightarrow> bool" where
  "loose_eq (JNum a) (JNum b) = (a = b)"
| "loose_eq (JStr s) (JStr t) = (s = t)"
| "loose_eq (JNum a) (JStr t) = (string_to_number t = Some a)"
| "loose_eq (JStr s) (JNum b) = (string_to_number s = Some b)"
| "loose_eq JUndefined JUndefined = True"
| "loose_eq JUndefined JNull = True"
| "loose_eq JNull JUndefined = True"
| "loose_eq JNull JNull = True"
| "loose_eq _ _ = False"

text \<open>Truthiness, as tested by \<^verbatim>\<open>!userId\<close>.\<close>

fun truthy :: "jsval \<Rightarrow> bool" where
  "truthy (JNum n) = (n \<noteq> 0)"
| "truthy (JStr s) = (s \<noteq> [])"
| "truthy JUndefined = False"
| "truthy JNull = False"

text \<open>\<^verbatim>\<open>Math.min\<close> and \<^verbatim>\<open>Math.max\<close>: \<^verbatim>\<open>NaN\<close> if either argument converts to \<^verbatim>\<open>NaN\<close>.\<close>

definition math_min :: "jsval \<Rightarrow> jsval \<Rightarrow> int option" where
  "math_min x y =
     (case (to_number x, to_number y) of (Some a, Some b) \<Rightarrow> Some (min a b) | _ \<Rightarrow> None)"

definition math_max :: "jsval \<Rightarrow> jsval \<Rightarrow> int option" where
  "math_max x y =
     (case (to_number x, to_number y) of (Some a, Some b) \<Rightarrow> Some (max a b) | _ \<Rightarrow> None)"

text \<open>\<^verbatim>\<open>String.prototype.includes\<close>.\<close>

fun includes_str :: "string \<Rightarrow> string \<Rightarrow> bool" where
  "includes_str [] sub = (sub = [])"
| "includes_str (c # cs) sub = (take (length sub) (c # cs) = sub \<or> includes_str cs sub)"

section \<open>The private room token\<close>

text \<open>
  \<^verbatim>\<open>const roomId = `private_${Math.min(data.fromUserId, data.toUserId)}_${Math.max(data.fromUserId, data.toUserId)}`;\<close>
\<close>

definition privateRoomId :: "jsval \<Rightarrow> jsval \<Rightarrow> string" where
  "privateRoomId fromUserId toUserId =
     ''private_'' @ number_to_string (math_min fromUserId toUserId) @ ''_''
       @ number_to_string (math_max fromUserId toUserId)"

section \<open>The connection registry\<close>

type_synonym socketId = string

record userData =
  socketId :: socketId
  userId :: jsval
  userName :: string
  online :: bool

text \<open>
  \<^verbatim>\<open>connectedUsers\<close> is a JavaScript \<^verbatim>\<open>Map\<close>; its entries are kept in insertion
  order, which is the order \<^verbatim>\<open>findSocketIdByUserId\<close> walks them in.
\<close>

type_synonym registry = "(socketId \<times> userData) list"

fun findSocketIdByUserId :: "registry \<Rightarrow> jsval \<Rightarrow> socketId option" where
  "findSocketIdByUserId [] uid = None"
| "findSocketIdByUserId ((sid, ud) # rest) uid =
     (if loose_eq (userId ud) uid then Some sid else findSocketIdByUserId rest uid)"

section \<open>The persistent store\<close>

text \<open>
  The tables are those of the schema at the head of \<^verbatim>\<open>database.sql\<close>, with the
  constraints that decide the handlers' behaviour: the auto-increment keys, the foreign
  keys to \<^verbatim>\<open>users\<close>, \<^verbatim>\<open>UNIQUE (group_id)\<close> on \<^verbatim>\<open>chat_groups\<close> and
  \<^verbatim>\<open>UNIQUE KEY (group_id, user_id)\<close> on \<^verbatim>\<open>group_members\<close>. Rows are kept in insertion
  order, which stands for \<^verbatim>\<open>ORDER BY created_at ASC\<close>; time stamps are not modelled.
  \<open>has_is_group\<close> tells whether the \<^verbatim>\<open>messages\<close> table already has the optional
  \<^verbatim>\<open>is_group\<close> column (the migration in \<^verbatim>\<open>update_db.js\<close> adds it).

  Any query can also fail for reasons outside the tables (a lost connection, a lock
  time-out, a value the server rejects). \<open>faults\<close> is the schedule of such failures:
  each query takes the head of the list, runs when it is \<open>None\<close> or when the list is
  empty, and fails with the given error otherwise.

  How a \<^verbatim>\<open>WHERE\<close> clause compares a \<^verbatim>\<open>VARCHAR\<close> column with a string depends on the
  collation of the column, and how it compares an \<^verbatim>\<open>INT\<close> column with a bound
  parameter depends on the server's conversion of text to numbers. The store carries
  both comparisons, each taking the value of the column first: \<open>varchar_eq\<close> and
  \<open>int_eq\<close>. Nothing is assumed of them; the comparisons of a server with its default
  settings are defined below.
\<close>

record db_error =
  code :: string
  sqlMessage :: "string option"

record user_row =
  u_id :: int
  u_name :: string

record message_row =
  m_id :: nat
  m_user_id :: int
  m_content :: string
  m_room_id :: string
  m_is_group :: bool

record group_row =
  g_id :: nat
  g_name :: string
  g_creator_id :: int
  g_group_id :: string

record store =
  users :: "user_row list"
  messages :: "message_row list"
  msg_seq :: nat
  chat_groups :: "group_row list"
  grp_seq :: nat
  group_members :: "(string \<times> int) list"
  has_is_group :: bool
  faults :: "db_error option list"
  varchar_eq :: "string \<Rightarrow> string \<Rightarrow> bool"
  int_eq :: "int \<Rightarrow> jsval \<Rightarrow> bool"

type_synonym 'a query = "store \<Rightarrow> (db_error + 'a) \<times> store"

definition exec :: "'a query \<Rightarrow> 'a query" where
  "exec q s =
     (case faults s of
        [] \<Rightarrow> q s
      | None # fs \<Rightarrow> q (s\<lparr>faults := fs\<rparr>)
      | Some e # fs \<Rightarrow> (Inl e, s\<lparr>faults := fs\<rparr>))"

definition sql_error :: "string \<Rightarrow> string \<Rightarrow> db_error" where
  "sql_error c m = \<lparr>code = c, sqlMessage = Some m\<rparr>"

text \<open>
  A parameter bound for storing in an \<^verbatim>\<open>INT\<close> column: a number, or a string that is
  the decimal text of one. \<^verbatim>\<open>undefined\<close> and \<^verbatim>\<open>null\<close> are sent as \<^verbatim>\<open>NULL\<close>; they and
  any other string have no \<^verbatim>\<open>INT\<close> value in the model, and the statement that stores
  them fails.
\<close>

fun sql_int :: "jsval \<Rightarrow> int option" where
  "sql_int (JNum n) = Some n"
| "sql_int (JStr s) =
     (case string_to_number s of
        Some n \<Rightarrow> if s = int_to_string n then Some n else None
      | None \<Rightarrow> None)"
| "sql_int JUndefined = None"
| "sql_int JNull = None"

definition user_exists :: "store \<Rightarrow> int \<Rightarrow> bool" where
  "user_exists s n = (n \<in> u_id ` set (users s))"

subsection \<open>The comparisons of a server with its default settings\<close>

text \<open>
  The schema names no collation, and the default collations compare text without
  regard to case; \<open>ci_eq\<close> is that comparison on ASCII text.
\<close>

definition to_lower :: "char \<Rightarrow> char" where
  "to_lower c =
     (if 65 \<le> (of_char c :: nat) \<and> (of_char c :: nat) \<le> 90 then char_of (of_char c + 32 :: nat)
      else c)"

definition ci_eq :: "string \<Rightarrow> string \<Rightarrow> bool" where
  "ci_eq a b = (map to_lower a = map to_lower b)"

text \<open>
  An \<^verbatim>\<open>INT\<close> column and a string are compared as numbers. The string stands for the
  number written at its start (white space, a sign, digits, a fraction, an exponent),
  whatever follows it, and for 0 when no number is written there: \<^verbatim>\<open>'01'\<close>, \<^verbatim>\<open>' 1'\<close>,
  \<^verbatim>\<open>'1.0'\<close> and \<^verbatim>\<open>'1abc'\<close> all equal 1. \<open>leading_number s = (m, e)\<close> reads the number
  \<open>m * 10 ^ e\<close>. \<^verbatim>\<open>NULL\<close> equals nothing.
\<close>

definition split_digits :: "string \<Rightarrow> string \<times> string" where
  "split_digits s = (takeWhile is_digit s, dropWhile is_digit s)"

definition exponent_part :: "string \<Rightarrow> int" where
  "exponent_part s =
     (case s of
        [] \<Rightarrow> 0
      | c # r \<Rightarrow>
          if c = CHR ''e'' \<or> c = CHR ''E'' then
            (case r of
               [] \<Rightarrow> 0
             | d # r' \<Rightarrow>
                 if d = CHR ''-'' then - int (dec_value (takeWhile is_digit r'))
                 else if d = CHR ''+'' then int (dec_value (takeWhile is_digit r'))
                 else int (dec_value (takeWhile is_digit r)))
          else 0)"

definition leading_number :: "string \<Rightarrow> int \<times> int" where
  "leading_number s =
     (let s1 = dropWhile is_space s;
          negative = (case s1 of [] \<Rightarrow> False | c # r \<Rightarrow> c = CHR ''-'');
          s2 = (case s1 of [] \<Rightarrow> [] | c # r \<Rightarrow> if c = CHR ''-'' \<or> c = CHR ''+'' then r else s1);
          ip = fst (split_digits s2);
          s3 = snd (split_digits s2);
          fp = (case s3 of [] \<Rightarrow> [] | c # r \<Rightarrow> if c = CHR ''.'' then fst (split_digits r) else []);
          s4 = (case s3 of [] \<Rightarrow> [] | c # r \<Rightarrow> if c = CHR ''.'' then snd (split_digits r) else s3);
          ex = (if ip @ fp = [] then 0 else exponent_part s4);
          m = int (dec_value (ip @ fp))
      in (if negative then - m else m, ex - int (length fp)))"

fun mysql_int_eq :: "int \<Rightarrow> jsval \<Rightarrow> bool" where
  "mysql_int_eq c (JNum n) = (c = n)"
| "mysql_int_eq c (JStr s) =
     (case leading_number s of
        (m, e) \<Rightarrow> if 0 \<le> e then m * 10 ^ nat e = c else m = c * 10 ^ nat (- e))"
| "mysql_int_eq c JUndefined = False"
| "mysql_int_eq c JNull = False"

subsection \<open>Messages\<close>

text \<open>
  \<^verbatim>\<open>INSERT INTO messages (user_id, content, room_id, is_group) VALUES (?, ?, ?, ?)\<close>
  when \<open>with_flag\<close>, and
  \<^verbatim>\<open>INSERT INTO messages (user_id, content, room_id) VALUES (?, ?, ?)\<close>
  otherwise, where the column, if the table has it, takes its default \<^verbatim>\<open>FALSE\<close>.
  The result is \<^verbatim>\<open>result.insertId\<close>.
\<close>

definition insert_message_row :: "bool \<Rightarrow> jsval \<Rightarrow> string \<Rightarrow> string \<Rightarrow> nat query" where
  "insert_message_row with_flag uid content room s =
     (if with_flag \<and> \<not> has_is_group s then
        (Inl (sql_error ''ER_BAD_FIELD_ERROR'' ''Unknown column 'is_group' in 'field list' ''), s)
      else case sql_int uid of
        None \<Rightarrow> (Inl (sql_error ''ER_TRUNCATED_WRONG_VALUE_FOR_FIELD'' ''Incorrect integer value''), s)
      | Some n \<Rightarrow>
          if \<not> user_exists s n then
            (Inl (sql_error ''ER_NO_REFERENCED_ROW_2'' ''Cannot add or update a child row''), s)
          else
            (Inr (Suc (msg_seq s)),
             s\<lparr>messages := messages s @
                  [\<lparr>m_id = Suc (msg_seq s), m_user_id = n, m_content = content,
                    m_room_id = room, m_is_group = with_flag\<rparr>],
               msg_seq := Suc (msg_seq s)\<rparr>))"

definition insert_message_is_group :: "jsval \<Rightarrow> string \<Rightarrow> string \<Rightarrow> nat query" where
  "insert_message_is_group uid content room = exec (insert_message_row True uid content room)"

definition insert_message :: "jsval \<Rightarrow> string \<Rightarrow> string \<Rightarrow> nat query" where
  "insert_message uid content room = exec (insert_message_row False uid content room)"





subsection \<open>Groups and memberships\<close>

text \<open>\<^verbatim>\<open>INSERT INTO chat_groups (name, creator_id, group_id) VALUES (?, ?, ?)\<close>\<close>

definition insert_group :: "string \<Rightarrow> jsval \<Rightarrow> string \<Rightarrow> nat query" where
  "insert_group name creator gid =
     exec (\<lambda>s. case sql_int creator of
        None \<Rightarrow> (Inl (sql_error ''ER_TRUNCATED_WRONG_VALUE_FOR_FIELD'' ''Incorrect integer value''), s)
      | Some n \<Rightarrow>
          if gid \<in> g_group_id ` set (chat_groups s) then
            (Inl (sql_error ''ER_DUP_ENTRY'' ''Duplicate entry for key 'group_id' ''), s)
          else if \<not> user_exists s n then
            (Inl (sql_error ''ER_NO_REFERENCED_ROW_2'' ''Cannot add or update a child row''), s)
          else
            (Inr (Suc (grp_seq s)),
             s\<lparr>chat_groups := chat_groups s @
                  [\<lparr>g_id = Suc (grp_seq s), g_name = name, g_creator_id = n, g_group_id = gid\<rparr>],
               grp_seq := Suc (grp_seq s)\<rparr>))"

text \<open>
  The bulk inserts take the list of \<^verbatim>\<open>[groupId, memberId]\<close> pairs. With no pair the
  statement is not valid SQL. A pair whose user id has no \<^verbatim>\<open>INT\<close> value or names no
  user makes the whole statement fail.
\<close>

fun member_values :: "(string \<times> jsval) list \<Rightarrow> (string \<times> int) list option" where
  "member_values [] = Some []"
| "member_values ((g, v) # rest) =
     (case sql_int v of
        None \<Rightarrow> None
      | Some n \<Rightarrow> map_option (\<lambda>rs. (g, n) # rs) (member_values rest))"

text \<open>
  \<^verbatim>\<open>INSERT INTO group_members (group_id, user_id) VALUES ?\<close>: a pair that is already in
  the table, or twice in the statement, violates the unique key and the statement
  inserts nothing.
\<close>

definition insert_members :: "(string \<times> jsval) list \<Rightarrow> unit query" where
  "insert_members vals =
     exec (\<lambda>s. if vals = [] then (Inl (sql_error ''ER_PARSE_ERROR'' ''You have an error in your SQL syntax''), s)
        else case member_values vals of
          None \<Rightarrow> (Inl (sql_error ''ER_TRUNCATED_WRONG_VALUE_FOR_FIELD'' ''Incorrect integer value''), s)
        | Some rows \<Rightarrow>
            if \<not> distinct rows \<or> list_ex (\<lambda>r. r \<in> set (group_members s)) rows then
              (Inl (sql_error ''ER_DUP_ENTRY'' ''Duplicate entry for key 'group_id' ''), s)
            else if \<not> list_all (\<lambda>(g, n). user_exists s n) rows then
              (Inl (sql_error ''ER_NO_REFERENCED_ROW_2'' ''Cannot add or update a child row''), s)
            else (Inr (), s\<lparr>group_members := group_members s @ rows\<rparr>))"

text \<open>
  \<^verbatim>\<open>INSERT INTO group_members (group_id, user_id) VALUES ?
    ON DUPLICATE KEY UPDATE user_id = VALUES(user_id)\<close>: a pair that is already there is
  left as it is.
\<close>

fun add_new_rows :: "(string \<times> int) list \<Rightarrow> (string \<times> int) list \<Rightarrow> (string \<times> int) list" where
  "add_new_rows tbl [] = tbl"
| "add_new_rows tbl (r # rs) = add_new_rows (if r \<in> set tbl then tbl else tbl @ [r]) rs"

definition upsert_members :: "(string \<times> jsval) list \<Rightarrow> unit query" where
  "upsert_members vals =
     exec (\<lambda>s. if vals = [] then (Inl (sql_error ''ER_PARSE_ERROR'' ''You have an error in your SQL syntax''), s)
        else case member_values vals of
          None \<Rightarrow> (Inl (sql_error ''ER_TRUNCATED_WRONG_VALUE_FOR_FIELD'' ''Incorrect integer value''), s)
        | Some rows \<Rightarrow>
            if \<not> list_all (\<lambda>(g, n). user_exists s n) rows then
              (Inl (sql_error ''ER_NO_REFERENCED_ROW_2'' ''Cannot add or update a child row''), s)
            else (Inr (), s\<lparr>group_members := add_new_rows (group_members s) rows\<rparr>))"

text \<open>\<^verbatim>\<open>DELETE FROM group_members WHERE group_id = ? AND user_id = ?\<close>\<close>

definition delete_member :: "string \<Rightarrow> jsval \<Rightarrow> unit query" where
  "delete_member gid uid =
     exec (\<lambda>s. (Inr (),
        s\<lparr>group_members :=
             filter (\<lambda>(g, n). \<not> (varchar_eq s g gid \<and> int_eq s n uid)) (group_members s)\<rparr>))"

text \<open>\<^verbatim>\<open>SELECT COUNT(*) as memberCount FROM group_members WHERE group_id = ?\<close>\<close>

definition count_members :: "string \<Rightarrow> nat query" where
  "count_members gid =
     exec (\<lambda>s. (Inr (length (filter (\<lambda>(g, n). varchar_eq s g gid) (group_members s))), s))"

text \<open>\<^verbatim>\<open>DELETE FROM chat_groups WHERE group_id = ?\<close>\<close>

definition delete_group :: "string \<Rightarrow> unit query" where
  "delete_group gid =
     exec (\<lambda>s. (Inr (),
        s\<lparr>chat_groups := filter (\<lambda>r. \<not> varchar_eq s (g_group_id r) gid) (chat_groups s)\<rparr>))"

text \<open>\<^verbatim>\<open>SELECT * FROM chat_groups WHERE group_id = ? AND creator_id = ?\<close>\<close>

definition select_group_by_creator :: "string \<Rightarrow> jsval \<Rightarrow> group_row list query" where
  "select_group_by_creator gid uid =
     exec (\<lambda>s. (Inr (filter (\<lambda>r. varchar_eq s (g_group_id r) gid \<and> int_eq s (g_creator_id r) uid)
                            (chat_groups s)), s))"


text \<open>\<^verbatim>\<open>SELECT name FROM users WHERE id = ?\<close>\<close>

definition select_user_name :: "jsval \<Rightarrow> string list query" where
  "select_user_name uid =
     exec (\<lambda>s. (Inr (map u_name (filter (\<lambda>u. int_eq s (u_id u) uid) (users s))), s))"

text \<open>\<^verbatim>\<open>SELECT id, name FROM users WHERE id IN (?)\<close>\<close>

definition select_users_in :: "jsval list \<Rightarrow> user_row list query" where
  "select_users_in uids =
     exec (\<lambda>s. if uids = [] then (Inl (sql_error ''ER_PARSE_ERROR'' ''You have an error in your SQL syntax''), s)
        else (Inr (filter (\<lambda>u. list_ex (int_eq s (u_id u)) uids) (users s)), s))"

text \<open>
  The groups of a user, with their member counts:
  \<^verbatim>\<open>SELECT g.group_id, g.name, g.creator_id, g.created_at, COUNT(gm.user_id) as member_count
    FROM chat_groups g JOIN group_members gm ON g.group_id = gm.group_id
    WHERE g.group_id IN (SELECT group_id FROM group_members WHERE user_id = ?)
    GROUP BY g.group_id\<close>.
  A result row is (group id, name, creator id, member count). The query is modelled for
  a user id in canonical form and for group ids as they are stored.
\<close>

type_synonym group_list_row = "string \<times> string \<times> int \<times> nat"

definition select_user_groups :: "jsval \<Rightarrow> group_list_row list query" where
  "select_user_groups uid =
     exec (\<lambda>s. (Inr (map (\<lambda>r. (g_group_id r, g_name r, g_creator_id r,
                               length (filter (\<lambda>(g, n). g = g_group_id r) (group_members s))))
                         (filter (\<lambda>r. case sql_int uid of None \<Rightarrow> False
                                       | Some n \<Rightarrow> (g_group_id r, n) \<in> set (group_members s))
                                 (chat_groups s))), s))"

section \<open>Connections, rooms and what the server sends\<close>

text \<open>
  What a handler sends, by event name. Time stamps (\<^verbatim>\<open>new Date()\<close>) are left out, and
  a system message (\<^verbatim>\<open>fromUserId: 'system', isSystem: true\<close>) has a constructor of its own.
\<close>

datatype payload =
    GroupMessage nat string jsval string string
      \<comment> \<open>\<^verbatim>\<open>group-message\<close>: messageId, groupId, fromUserId, fromUserName, message\<close>
  | SystemMessage string string
      \<comment> \<open>\<^verbatim>\<open>group-message\<close> from the system: groupId, message\<close>
  | PrivateMessage jsval string string
      \<comment> \<open>\<^verbatim>\<open>private-message\<close>: fromUserId, fromUserName, message\<close>
  | MessageSent jsval string "nat option"
      \<comment> \<open>\<^verbatim>\<open>message-sent\<close>: toUserId, message, messageId (\<open>None\<close> is \<^verbatim>\<open>null\<close>)\<close>
  | GroupCreated nat string string jsval "jsval list option"
      \<comment> \<open>\<^verbatim>\<open>group-created\<close>, success: id, groupId, name, creatorId, memberIds\<close>
  | GroupCreatedFailed string
      \<comment> \<open>\<^verbatim>\<open>group-created\<close>, failure: error\<close>
  | LeaveGroupOk string
      \<comment> \<open>\<^verbatim>\<open>leave-group-result\<close>, success: groupId\<close>
  | LeaveGroupFailed string
      \<comment> \<open>\<^verbatim>\<open>leave-group-result\<close>, failure: error\<close>
  | MemberRemovedNotice string string jsval string
      \<comment> \<open>\<^verbatim>\<open>member-removed\<close> to the removed user: groupId, groupName, userId, userName\<close>
  | MemberRemoved string jsval string
      \<comment> \<open>\<^verbatim>\<open>member-removed\<close> to the group: groupId, userId, userName\<close>
  | MembersAdded string "(int \<times> string) list"
      \<comment> \<open>\<^verbatim>\<open>members-added\<close>: groupId, addedUsers\<close>
  | GroupList "group_list_row list"
      \<comment> \<open>\<^verbatim>\<open>group-list\<close>\<close>

datatype sql =
    InsertMessageIsGroup | InsertMessage | InsertGroup | InsertMembers | UpsertMembers
  | DeleteMember | CountMembers | DeleteGroup | SelectGroupByCreator | SelectUserName
  | SelectUsersIn | SelectUserGroups

text \<open>
  The log records, in program order, every call a handler makes to the store and to
  Socket.IO. \<open>IoTo room recipients p\<close> is \<^verbatim>\<open>io.to(room).emit(...)\<close>; \<open>recipients\<close> are the
  connections that are in the room at that moment, which are the ones that receive \<open>p\<close>.
\<close>

datatype effect =
    Query sql
  | Join socketId string
  | Leave socketId string
  | IoTo string "socketId list" payload
  | SocketEmit socketId payload
  | Uncaught string

text \<open>
  \<open>connectedUsers\<close> is the registry; \<open>sockets\<close> are the live connections
  (\<^verbatim>\<open>io.sockets.sockets\<close>); \<open>rooms\<close> is the adapter's relation between connections and
  the rooms they have joined (Socket.IO puts every connection in a room named by its own
  id, which is how \<^verbatim>\<open>io.to(socketId)\<close> reaches one connection).
\<close>

record state =
  connectedUsers :: registry
  sockets :: "socketId list"
  rooms :: "(socketId \<times> string) list"
  db :: store
  log :: "effect list"

definition socket_rooms :: "state \<Rightarrow> socketId \<Rightarrow> string list" where
  "socket_rooms st sid = map snd (filter (\<lambda>(s, r). s = sid) (rooms st))"

definition room_sockets :: "state \<Rightarrow> string \<Rightarrow> socketId list" where
  "room_sockets st room = map fst (filter (\<lambda>(s, r). r = room) (rooms st))"

definition socket_join :: "socketId \<Rightarrow> string \<Rightarrow> state \<Rightarrow> state" where
  "socket_join sid room st =
     st\<lparr>rooms := (if (sid, room) \<in> set (rooms st) then rooms st else rooms st @ [(sid, room)]),
        log := log st @ [Join sid room]\<rparr>"

definition socket_leave :: "socketId \<Rightarrow> string \<Rightarrow> state \<Rightarrow> state" where
  "socket_leave sid room st =
     st\<lparr>rooms := filter (\<lambda>p. p \<noteq> (sid, room)) (rooms st),
        log := log st @ [Leave sid room]\<rparr>"

definition io_to_emit :: "string \<Rightarrow> payload \<Rightarrow> state \<Rightarrow> state" where
  "io_to_emit room p st = st\<lparr>log := log st @ [IoTo room (room_sockets st room) p]\<rparr>"

definition socket_emit :: "socketId \<Rightarrow> payload \<Rightarrow> state \<Rightarrow> state" where
  "socket_emit sid p st = st\<lparr>log := log st @ [SocketEmit sid p]\<rparr>"

text \<open>\<^verbatim>\<open>db.query(...)\<close>: the call is logged and the store answers.\<close>

definition db_query :: "sql \<Rightarrow> 'a query \<Rightarrow> state \<Rightarrow> (db_error + 'a) \<times> state" where
  "db_query name q st =
     (case q (db st) of (r, d) \<Rightarrow> (r, st\<lparr>db := d, log := log st @ [Query name]\<rparr>))"

section \<open>The event handlers\<close>

text \<open>
  Each handler is a function of the connection it runs on (\<^verbatim>\<open>socket.id\<close>), the fields
  of the event's data and the state. The store's reply is taken to arrive before the
  next event is handled, so a handler and its callbacks run as one step.
\<close>

subsection \<open>\<^verbatim>\<open>private-message\<close>\<close>

definition privateMessage ::
  "socketId \<Rightarrow> jsval \<Rightarrow> jsval \<Rightarrow> string \<Rightarrow> string \<Rightarrow> state \<Rightarrow> state" where
  "privateMessage sid toUserId fromUserId fromUserName message st =
     (let recipientSocketId = findSocketIdByUserId (connectedUsers st) toUserId;
          roomId = privateRoomId fromUserId toUserId
      in case db_query InsertMessage (insert_message fromUserId message roomId) st of
           (result, st1) \<Rightarrow>
             let st2 = (case recipientSocketId of
                          Some r \<Rightarrow> io_to_emit r (PrivateMessage fromUserId fromUserName message) st1
                        | None \<Rightarrow> st1)
             in socket_emit sid
                  (MessageSent toUserId message
                     (case result of Inr insertId \<Rightarrow> Some insertId | Inl err \<Rightarrow> None))
                  st2)"

subsection \<open>\<^verbatim>\<open>create-group\<close>\<close>

text \<open>The body of \<^verbatim>\<open>memberIds.forEach\<close>: tell a member who is online, and join them.\<close>

definition notify_member :: "socketId \<Rightarrow> string \<Rightarrow> payload \<Rightarrow> state \<Rightarrow> jsval \<Rightarrow> state" where
  "notify_member sid groupId groupObject st memberId =
     (case findSocketIdByUserId (connectedUsers st) memberId of
        None \<Rightarrow> st
      | Some memberSocketId \<Rightarrow>
          let st1 = io_to_emit memberSocketId groupObject st
          in if memberSocketId \<noteq> sid then
               (if memberSocketId \<in> set (sockets st1) then socket_join memberSocketId groupId st1
                else st1)
             else st1)"

text \<open>
  \<^verbatim>\<open>const groupId = 'group_' + Date.now();\<close> where \<open>now\<close> is the value of
  \<^verbatim>\<open>Date.now()\<close>, the clock in milliseconds, when the event is handled.
\<close>

definition newGroupId :: "nat \<Rightarrow> string" where
  "newGroupId now = ''group_'' @ dec_digits now"

definition createGroup ::
  "nat \<Rightarrow> socketId \<Rightarrow> string \<Rightarrow> jsval list option \<Rightarrow> state \<Rightarrow> state" where
  "createGroup now sid groupName data_memberIds st =
     (case map_of (connectedUsers st) sid of
        None \<Rightarrow> st
      | Some userData \<Rightarrow>
          let groupId = newGroupId now;
              memberIds0 = (case data_memberIds of None \<Rightarrow> [] | Some ms \<Rightarrow> ms);
              memberIds = (if userId userData \<in> set memberIds0 then memberIds0
                           else memberIds0 @ [userId userData])
          in case db_query InsertGroup (insert_group groupName (userId userData) groupId) st of
               (Inl err, st1) \<Rightarrow> socket_emit sid (GroupCreatedFailed ''Failed to create group'') st1
             | (Inr insertId, st1) \<Rightarrow>
                 (case db_query InsertMembers
                         (insert_members (map (\<lambda>memberId. (groupId, memberId)) memberIds)) st1 of
                    (Inl err, st2) \<Rightarrow>
                      socket_emit sid (GroupCreatedFailed ''Failed to add members'') st2
                  | (Inr u, st2) \<Rightarrow>
                      let st3 = socket_join sid groupId st2;
                          groupObject = GroupCreated insertId groupId groupName (userId userData)
                                          (Some memberIds);
                          st4 = foldl (notify_member sid groupId groupObject) st3 memberIds
                      in io_to_emit groupId
                           (SystemMessage groupId
                              (''Group '' @ [CHR 0x22] @ groupName @ [CHR 0x22] @ '' created by ''
                                 @ userName userData))
                           st4))"

subsection \<open>\<^verbatim>\<open>group-message\<close>\<close>

definition sendGroupMessage :: "nat \<Rightarrow> string \<Rightarrow> userData \<Rightarrow> string \<Rightarrow> state \<Rightarrow> state" where
  "sendGroupMessage insertId groupId userData message st =
     io_to_emit groupId
       (GroupMessage insertId groupId (userId userData) (userName userData) message) st"

text \<open>
  Reading \<^verbatim>\<open>err.sqlMessage.includes\<close> on an error without a message throws inside the
  callback; the log records it as \<open>Uncaught\<close>.
\<close>

definition groupMessage :: "socketId \<Rightarrow> string \<Rightarrow> string \<Rightarrow> state \<Rightarrow> state" where
  "groupMessage sid groupId message st =
     (case map_of (connectedUsers st) sid of
        None \<Rightarrow> st
      | Some userData \<Rightarrow>
          let st0 = (if groupId \<notin> set (socket_rooms st sid) then socket_join sid groupId st
                     else st)
          in case db_query InsertMessageIsGroup
                    (insert_message_is_group (userId userData) message groupId) st0 of
               (Inl err, st1) \<Rightarrow>
                 if code err = ''ER_BAD_FIELD_ERROR'' then
                   (case sqlMessage err of
                      None \<Rightarrow> st1\<lparr>log := log st1 @ [Uncaught ''TypeError'']\<rparr>
                    | Some m \<Rightarrow>
                        if includes_str m ''is_group'' then
                          (case db_query InsertMessage
                                  (insert_message (userId userData) message groupId) st1 of
                             (Inl err2, st2) \<Rightarrow> st2
                           | (Inr insertId, st2) \<Rightarrow>
                               sendGroupMessage insertId groupId userData message st2)
                        else st1)
                 else st1
             | (Inr insertId, st1) \<Rightarrow> sendGroupMessage insertId groupId userData message st1)"

subsection \<open>\<^verbatim>\<open>leave-group\<close>\<close>

text \<open>The last query has no callback: its reply is not looked at.\<close>

definition leaveGroup :: "socketId \<Rightarrow> string \<Rightarrow> state \<Rightarrow> state" where
  "leaveGroup sid groupId st =
     (case map_of (connectedUsers st) sid of
        None \<Rightarrow> st
      | Some userData \<Rightarrow>
          (case db_query DeleteMember (delete_member groupId (userId userData)) st of
             (Inl err, st1) \<Rightarrow> socket_emit sid (LeaveGroupFailed ''Failed to leave group'') st1
           | (Inr u, st1) \<Rightarrow>
               let st2 = socket_leave sid groupId st1;
                   st3 = socket_emit sid (LeaveGroupOk groupId) st2;
                   st4 = io_to_emit groupId
                           (SystemMessage groupId (userName userData @ '' has left the group''))
                           st3
               in case db_query CountMembers (count_members groupId) st4 of
                    (Inl err, st5) \<Rightarrow> st5
                  | (Inr memberCount, st5) \<Rightarrow>
                      if memberCount = 0 then snd (db_query DeleteGroup (delete_group groupId) st5)
                      else st5))"

subsection \<open>\<^verbatim>\<open>remove-group-member\<close>\<close>

definition removeGroupMember :: "socketId \<Rightarrow> string \<Rightarrow> jsval \<Rightarrow> state \<Rightarrow> state" where
  "removeGroupMember sid groupId data_userId st =
     (case map_of (connectedUsers st) sid of
        None \<Rightarrow> st
      | Some userData \<Rightarrow>
          (case db_query SelectGroupByCreator
                  (select_group_by_creator groupId (userId userData)) st of
             (Inl err, st1) \<Rightarrow> st1
           | (Inr [], st1) \<Rightarrow> st1
           | (Inr (groupInfo # others), st1) \<Rightarrow>
               (case db_query SelectUserName (select_user_name data_userId) st1 of
                  (Inl err, st2) \<Rightarrow> st2
                | (Inr [], st2) \<Rightarrow> st2
                | (Inr (removedName # names), st2) \<Rightarrow>
                    (case db_query DeleteMember (delete_member groupId data_userId) st2 of
                       (Inl err, st3) \<Rightarrow> st3
                     | (Inr u, st3) \<Rightarrow>
                         let st4 =
                               (case findSocketIdByUserId (connectedUsers st3) data_userId of
                                  None \<Rightarrow> st3
                                | Some removedUserSocketId \<Rightarrow>
                                    let st3a = io_to_emit removedUserSocketId
                                                 (MemberRemovedNotice groupId (g_name groupInfo)
                                                    data_userId removedName) st3
                                    in if removedUserSocketId \<in> set (sockets st3a)
                                       then socket_leave removedUserSocketId groupId st3a
                                       else st3a);
                             st5 = io_to_emit groupId
                                     (MemberRemoved groupId data_userId removedName) st4
                         in io_to_emit groupId
                              (SystemMessage groupId
                                 (removedName @ '' has been removed from the group by ''
                                    @ userName userData))
                              st5))))"

subsection \<open>\<^verbatim>\<open>add-group-members\<close>\<close>

text \<open>The body of the first \<^verbatim>\<open>addedUsers.forEach\<close>; an added user is (userId, userName).\<close>

definition join_added_user ::
  "group_row \<Rightarrow> string \<Rightarrow> userData \<Rightarrow> state \<Rightarrow> int \<times> string \<Rightarrow> state" where
  "join_added_user groupInfo groupId userData st addedUser =
     (case findSocketIdByUserId (connectedUsers st) (JNum (fst addedUser)) of
        None \<Rightarrow> st
      | Some addedUserSocketId \<Rightarrow>
          let st1 = (if addedUserSocketId \<in> set (sockets st)
                     then socket_join addedUserSocketId groupId st else st)
          in io_to_emit addedUserSocketId
               (GroupCreated (g_id groupInfo) groupId (g_name groupInfo) (userId userData) None)
               st1)"

definition added_user_message :: "string \<Rightarrow> userData \<Rightarrow> state \<Rightarrow> int \<times> string \<Rightarrow> state" where
  "added_user_message groupId userData st addedUser =
     io_to_emit groupId
       (SystemMessage groupId
          (snd addedUser @ '' has been added to the group by '' @ userName userData))
       st"

definition addGroupMembers :: "socketId \<Rightarrow> string \<Rightarrow> jsval list \<Rightarrow> state \<Rightarrow> state" where
  "addGroupMembers sid groupId userIds st =
     (case map_of (connectedUsers st) sid of
        None \<Rightarrow> st
      | Some userData \<Rightarrow>
          (case db_query SelectGroupByCreator
                  (select_group_by_creator groupId (userId userData)) st of
             (Inl err, st1) \<Rightarrow> st1
           | (Inr [], st1) \<Rightarrow> st1
           | (Inr (groupInfo # others), st1) \<Rightarrow>
               (case db_query UpsertMembers
                       (upsert_members (map (\<lambda>memberId. (groupId, memberId)) userIds)) st1 of
                  (Inl err, st2) \<Rightarrow> st2
                | (Inr u, st2) \<Rightarrow>
                    (case db_query SelectUsersIn (select_users_in userIds) st2 of
                       (Inl err, st3) \<Rightarrow> st3
                     | (Inr userResults, st3) \<Rightarrow>
                         let addedUsers = map (\<lambda>user. (u_id user, u_name user)) userResults;
                             st4 = foldl (join_added_user groupInfo groupId userData) st3 addedUsers;
                             st5 = io_to_emit groupId (MembersAdded groupId addedUsers) st4
                         in foldl (added_user_message groupId userData) st5 addedUsers))))"

subsection \<open>\<^verbatim>\<open>request-groups\<close>\<close>

definition sendUserGroups :: "socketId \<Rightarrow> jsval \<Rightarrow> state \<Rightarrow> state" where
  "sendUserGroups sid uid st =
     (if \<not> truthy uid then st
      else case db_query SelectUserGroups (select_user_groups uid) st of
             (Inl err, st1) \<Rightarrow> st1
           | (Inr results, st1) \<Rightarrow> socket_emit sid (GroupList results) st1)"

definition requestGroups :: "socketId \<Rightarrow> state \<Rightarrow> state" where
  "requestGroups sid st =
     (case map_of (connectedUsers st) sid of
        None \<Rightarrow> st
      | Some userData \<Rightarrow> sendUserGroups sid (userId userData) st)"

section \<open>Group history over HTTP\<close>



section \<open>Notions used in the statements\<close>

text \<open>
  The integers that JavaScript numbers hold exactly
  (\<^verbatim>\<open>Number.MIN_SAFE_INTEGER\<close> to \<^verbatim>\<open>Number.MAX_SAFE_INTEGER\<close>).
\<close>

definition safe_int :: "int \<Rightarrow> bool" where
  "safe_int n = (- 9007199254740991 \<le> n \<and> n \<le> 9007199254740991)"

text \<open>
  A decimal id: a number in that range, or text that is white space around an
  optionally signed run of decimal digits (or nothing) with its value in that range.
  On these ids \<open>loose_eq\<close> is \<^verbatim>\<open>==\<close>.
\<close>

fun decimal_id :: "jsval \<Rightarrow> bool" where
  "decimal_id (JNum n) = safe_int n"
| "decimal_id (JStr s) = (case string_to_number s of Some n \<Rightarrow> safe_int n | None \<Rightarrow> False)"
| "decimal_id JUndefined = False"
| "decimal_id JNull = False"

text \<open>
  An id in canonical form: a decimal id that is a number, or the decimal text that
  \<^verbatim>\<open>Number.prototype.toString\<close> gives a number.
\<close>

fun canonical_id :: "jsval \<Rightarrow> bool" where
  "canonical_id (JNum n) = safe_int n"
| "canonical_id (JStr s) =
     (case string_to_number s of Some n \<Rightarrow> safe_int n \<and> s = int_to_string n | None \<Rightarrow> False)"
| "canonical_id JUndefined = False"
| "canonical_id JNull = False"

text \<open>
  What \<^verbatim>\<open>==\<close> comes to on decimal ids: two strings are equal when they are the same
  text, and otherwise the two ids are equal when they have the same numeric value.
\<close>

fun id_matches :: "jsval \<Rightarrow> jsval \<Rightarrow> bool" where
  "id_matches (JStr s) (JStr t) = (s = t)"
| "id_matches a b = (to_number a = to_number b)"

text \<open>
  The state after \<^verbatim>\<open>group-message\<close> has made sure that the sender's connection is in
  the room: \<^verbatim>\<open>if (!rooms.includes(groupId)) { socket.join(groupId); }\<close>
\<close>

definition rejoined :: "socketId \<Rightarrow> string \<Rightarrow> state \<Rightarrow> state" where
  "rejoined sid groupId st =
     (if groupId \<notin> set (socket_rooms st sid) then socket_join sid groupId st else st)"

text \<open>The test the handlers make on a failed query before they fall back.\<close>

definition names_is_group :: "db_error \<Rightarrow> bool" where
  "names_is_group err =
     (code err = ''ER_BAD_FIELD_ERROR''
      \<and> (case sqlMessage err of None \<Rightarrow> False | Some m \<Rightarrow> includes_str m ''is_group''))"



text \<open>The member list of \<^verbatim>\<open>create-group\<close>, once the creator has been added to it.\<close>

definition members_with_creator :: "jsval \<Rightarrow> jsval list option \<Rightarrow> jsval list" where
  "members_with_creator creator data_memberIds =
     (let memberIds0 = (case data_memberIds of None \<Rightarrow> [] | Some ms \<Rightarrow> ms)
      in if creator \<in> set memberIds0 then memberIds0 else memberIds0 @ [creator])"


section \<open>Example data\<close>

text \<open>
  Ann (user 1) is identified on connection \<open>sA\<close> and Bo (user 2, whose id arrived
  as text) on \<open>sB\<close>; \<open>sC\<close> is connected and has not identified itself. Cy (user 3) is
  registered and offline. The store compares as a server with its default settings does.
\<close>

definition demo_store :: store where
  "demo_store =
     \<lparr>users = [\<lparr>u_id = 1, u_name = ''Ann''\<rparr>, \<lparr>u_id = 2, u_name = ''Bo''\<rparr>,
               \<lparr>u_id = 3, u_name = ''Cy''\<rparr>],
      messages = [], msg_seq = 0, chat_groups = [], grp_seq = 0, group_members = [],
      has_is_group = True, faults = [], varchar_eq = ci_eq, int_eq = mysql_int_eq\<rparr>"

definition demo_state :: state where
  "demo_state =
     \<lparr>connectedUsers =
        [(''sA'', \<lparr>socketId = ''sA'', userId = JNum 1, userName = ''Ann'', online = True\<rparr>),
         (''sB'', \<lparr>socketId = ''sB'', userId = JStr ''2'', userName = ''Bo'', online = True\<rparr>)],
      sockets = [''sA'', ''sB'', ''sC''],
      rooms = [(''sA'', ''sA''), (''sB'', ''sB''), (''sC'', ''sC'')],
      db = demo_store, log = []\<rparr>"

text \<open>
  The same, after Ann has created the group \<open>Team\<close> with Bo at clock reading 1700:
  both are members, and both connections are in the group's room.
\<close>

definition demo_group_state :: state where
  "demo_group_state =
     demo_state
       \<lparr>rooms := [(''sA'', ''sA''), (''sB'', ''sB''), (''sC'', ''sC''),
                  (''sA'', ''group_1700''), (''sB'', ''group_1700'')],
        db := demo_store
          \<lparr>chat_groups := [\<lparr>g_id = 1, g_name = ''Team'', g_creator_id = 1,
                             g_group_id = ''group_1700''\<rparr>],
           grp_seq := 1,
           group_members := [(''group_1700'', 2), (''group_1700'', 1)]\<rparr>\<rparr>"


text \<open>An error that is not the missing-column error.\<close>

definition connection_lost :: db_error where
  "connection_lost = \<lparr>code = ''PROTOCOL_CONNECTION_LOST'', sqlMessage = None\<rparr>"

section \<open>Decimal text of numbers\<close>

lemma digit_val_char: "d < 10 \<Longrightarrow> digit_val (digit_char d) = d"
  by (simp add: digit_val_def digit_char_def)

lemma is_digit_char: "d < 10 \<Longrightarrow> is_digit (digit_char d)"
  by (simp add: is_digit_def digit_char_def)

lemma dec_value_snoc: "dec_value (s @ [c]) = 10 * dec_value s + digit_val c"
  by (simp add: dec_value_def)

lemma dec_value_digits: "dec_value (dec_digits n) = n"
proof (induction n rule: dec_digits.induct)
  case (1 n)
  show ?case
  proof (cases "n < 10")
    case True
    then show ?thesis by (simp add: dec_digits.simps[of n] dec_value_def digit_val_char)
  next
    case False
    then show ?thesis using 1
      by (simp add: dec_digits.simps[of n] dec_value_snoc digit_val_char)
  qed
qed

lemma dec_digits_all_digit: "list_all is_digit (dec_digits n)"
proof (induction n rule: dec_digits.induct)
  case (1 n)
  show ?case
  proof (cases "n < 10")
    case True
    then show ?thesis by (simp add: dec_digits.simps[of n] is_digit_char)
  next
    case False
    then show ?thesis using 1
      by (simp add: dec_digits.simps[of n] is_digit_char)
  qed
qed

lemma dec_digits_nonempty: "dec_digits n \<noteq> []"
  by (subst dec_digits.simps) simp

lemma dec_digits_inj: "dec_digits m = dec_digits n \<Longrightarrow> m = n"
  by (metis dec_value_digits)

lemma is_digit_not_special:
  "is_digit c \<Longrightarrow> c \<noteq> CHR ''_'' \<and> c \<noteq> CHR ''-'' \<and> c \<noteq> CHR ''+'' \<and> \<not> is_space c"
  by (auto simp: is_digit_def is_space_def)

lemma dec_digits_no_underscore: "CHR ''_'' \<notin> set (dec_digits n)"
  using dec_digits_all_digit[of n] is_digit_not_special by (auto simp: list_all_iff)

lemma dec_digits_hd: "\<exists>c cs. dec_digits n = c # cs \<and> is_digit c \<and> list_all is_digit cs"
  using dec_digits_all_digit[of n] dec_digits_nonempty[of n] by (cases "dec_digits n") auto

lemma dec_digits_last: "is_digit (last (dec_digits n))"
  using dec_digits_all_digit[of n] dec_digits_nonempty[of n]
  by (simp add: list_all_iff)

lemma int_to_string_no_underscore: "CHR ''_'' \<notin> set (int_to_string i)"
  by (simp add: int_to_string_def dec_digits_no_underscore)

lemma int_to_string_inj: "int_to_string i = int_to_string j \<Longrightarrow> i = j"
proof -
  assume eq: "int_to_string i = int_to_string j"
  obtain c cs where ci: "dec_digits (nat i) = c # cs" "is_digit c"
    using dec_digits_hd by blast
  obtain d ds where dj: "dec_digits (nat j) = d # ds" "is_digit d"
    using dec_digits_hd by blast
  consider "i < 0" "j < 0" | "i < 0" "\<not> j < 0" | "\<not> i < 0" "j < 0" | "\<not> i < 0" "\<not> j < 0"
    by blast
  then show "i = j"
  proof cases
    case 1
    with eq have "dec_digits (nat (- i)) = dec_digits (nat (- j))"
      by (simp add: int_to_string_def)
    then have "nat (- i) = nat (- j)" by (rule dec_digits_inj)
    with 1 show ?thesis by simp
  next
    case 2
    with eq dj is_digit_not_special[of d] show ?thesis
      by (simp add: int_to_string_def)
  next
    case 3
    with eq ci is_digit_not_special[of c] show ?thesis
      by (simp add: int_to_string_def)
  next
    case 4
    with eq have "dec_digits (nat i) = dec_digits (nat j)"
      by (simp add: int_to_string_def)
    then have "nat i = nat j" by (rule dec_digits_inj)
    with 4 show ?thesis by simp
  qed
qed

lemma trim_id: "s \<noteq> [] \<Longrightarrow> \<not> is_space (hd s) \<Longrightarrow> \<not> is_space (last s) \<Longrightarrow> trim s = s"
proof -
  assume s: "s \<noteq> []" and h: "\<not> is_space (hd s)" and l: "\<not> is_space (last s)"
  from s h have 1: "dropWhile is_space s = s"
    by (simp add: dropWhile_eq_self_iff)
  from s l have 2: "dropWhile is_space (rev s) = rev s"
    by (simp add: dropWhile_eq_self_iff hd_rev)
  show ?thesis by (simp add: trim_def 1 2)
qed

lemma unsigned_number_digits: "unsigned_number (dec_digits n) = Some n"
  by (simp add: unsigned_number_def dec_digits_nonempty dec_digits_all_digit dec_value_digits)

lemma string_to_number_int_to_string: "string_to_number (int_to_string n) = Some n"
proof (cases "n < 0")
  case True
  have "trim (CHR ''-'' # dec_digits (nat (- n))) = CHR ''-'' # dec_digits (nat (- n))"
    using dec_digits_last[of "nat (- n)"] is_digit_not_special dec_digits_nonempty[of "nat (- n)"]
    by (intro trim_id) (auto simp: is_space_def)
  with True show ?thesis
    by (simp add: string_to_number_def int_to_string_def unsigned_number_digits)
next
  case False
  obtain c cs where d: "dec_digits (nat n) = c # cs" "is_digit c"
    using dec_digits_hd by blast
  have "trim (dec_digits (nat n)) = dec_digits (nat n)"
    using dec_digits_last[of "nat n"] is_digit_not_special d
    by (intro trim_id) auto
  moreover have "unsigned_number (c # cs) = Some (nat n)"
    using unsigned_number_digits[of "nat n"] d by simp
  ultimately show ?thesis
    using False d is_digit_not_special[of c]
    by (simp add: string_to_number_def int_to_string_def)
qed

lemma int_to_string_2: "int_to_string 2 = ''2''"
  by code_simp

lemma int_to_string_5: "int_to_string 5 = ''5''"
  by code_simp

lemma string_to_number_2: "string_to_number ''2'' = Some 2"
  by code_simp

lemma string_to_number_5: "string_to_number ''5'' = Some 5"
  by code_simp

lemma string_to_number_05: "string_to_number ''05'' = Some 5"
  by code_simp

section \<open>Private room tokens\<close>

lemma split_at_underscore:
  "CHR ''_'' \<notin> set a \<Longrightarrow> CHR ''_'' \<notin> set c \<Longrightarrow> a @ CHR ''_'' # b = c @ CHR ''_'' # d
     \<Longrightarrow> a = c \<and> b = d"
proof (induction a arbitrary: c)
  case Nil
  then show ?case by (cases c) auto
next
  case (Cons x a)
  then show ?case by (cases c) auto
qed

lemma privateRoomId_num:
  "privateRoomId (JNum a) (JNum b) =
     ''private_'' @ int_to_string (min a b) @ CHR ''_'' # int_to_string (max a b)"
  by (simp add: privateRoomId_def math_min_def math_max_def number_to_string_def)

lemma min_max_pair: "min a b = min c d \<Longrightarrow> max a b = max c d \<Longrightarrow> {a, b} = {c, (d::int)}"
  by (auto simp: min_def max_def split: if_splits)

text \<open>
  C7. For numeric user ids \<open>a\<close> and \<open>b\<close> the private room token does not depend on the
  order of the two ids, and two pairs of ids with the same token are the same unordered
  pair: the token is collision-free.
\<close>

theorem privateRoomId_symmetric_injective:
  "privateRoomId (JNum a) (JNum b) = privateRoomId (JNum b) (JNum a)
   \<and> (privateRoomId (JNum a) (JNum b) = privateRoomId (JNum c) (JNum d) \<longrightarrow> {a, b} = {c, d})"
proof
  show "privateRoomId (JNum a) (JNum b) = privateRoomId (JNum b) (JNum a)"
    by (simp add: privateRoomId_num min.commute max.commute)
  show "privateRoomId (JNum a) (JNum b) = privateRoomId (JNum c) (JNum d) \<longrightarrow> {a, b} = {c, d}"
  proof
    assume "privateRoomId (JNum a) (JNum b) = privateRoomId (JNum c) (JNum d)"
    then have "int_to_string (min a b) @ CHR ''_'' # int_to_string (max a b)
             = int_to_string (min c d) @ CHR ''_'' # int_to_string (max c d)"
      by (simp add: privateRoomId_num)
    then have "int_to_string (min a b) = int_to_string (min c d)
             \<and> int_to_string (max a b) = int_to_string (max c d)"
      by (rule split_at_underscore[OF int_to_string_no_underscore int_to_string_no_underscore])
    then have "min a b = min c d" "max a b = max c d"
      by (auto dest: int_to_string_inj)
    then show "{a, b} = {c, d}" by (rule min_max_pair)
  qed
qed

theorem privateRoomId_witness:
  "privateRoomId (JNum 5) (JNum 9) = ''private_5_9''
   \<and> privateRoomId (JNum 5) (JNum 9) = privateRoomId (JNum 9) (JNum 5)
   \<and> {5, 9} = {9, 5::int}"
proof -
  have e: "privateRoomId (JNum 5) (JNum 9) = ''private_5_9''"
    by code_simp
  have "privateRoomId (JNum 5) (JNum 9) = privateRoomId (JNum 9) (JNum 5)"
    using privateRoomId_symmetric_injective[of 5 9 9 5] by simp
  moreover from this have "{5, 9} = {9, 5::int}"
    using privateRoomId_symmetric_injective[of 5 9 9 5] by blast
  ultimately show ?thesis using e by simp
qed

section \<open>Looking a user up in the registry\<close>

lemma findSocketIdByUserId_find:
  "findSocketIdByUserId reg uid = map_option fst (find (\<lambda>e. loose_eq (userId (snd e)) uid) reg)"
  by (induction reg) auto

lemma find_cong_set: "(\<And>e. e \<in> set xs \<Longrightarrow> P e = Q e) \<Longrightarrow> find P xs = find Q xs"
  by (induction xs) auto

lemma canonical_id_to_number:
  "canonical_id v \<Longrightarrow> \<exists>n. to_number v = Some n \<and> (v = JNum n \<or> v = JStr (int_to_string n))"
  by (cases v) (auto split: option.splits)

lemma canonical_decimal_id: "canonical_id v \<Longrightarrow> decimal_id v"
  by (cases v) (auto split: option.splits)

lemma loose_eq_decimal:
  "decimal_id a \<Longrightarrow> decimal_id b \<Longrightarrow> loose_eq a b = id_matches a b"
  by (cases a; cases b) (auto split: option.splits)

lemma id_matches_canonical:
  "canonical_id a \<Longrightarrow> canonical_id b \<Longrightarrow> id_matches a b = (to_number a = to_number b)"
proof -
  assume "canonical_id a" "canonical_id b"
  then obtain m n where
    a: "to_number a = Some m" "a = JNum m \<or> a = JStr (int_to_string m)" and
    b: "to_number b = Some n" "b = JNum n \<or> b = JStr (int_to_string n)"
    using canonical_id_to_number by blast
  then show ?thesis
    by (auto simp: string_to_number_int_to_string dest: int_to_string_inj)
qed

lemma loose_eq_canonical:
  "canonical_id a \<Longrightarrow> canonical_id b \<Longrightarrow> loose_eq a b = (to_number a = to_number b)"
  by (simp add: loose_eq_decimal canonical_decimal_id id_matches_canonical)

lemma findSocketIdByUserId_cong_pred:
  "(\<And>e. e \<in> set reg \<Longrightarrow> loose_eq (userId (snd e)) u = P e)
   \<Longrightarrow> findSocketIdByUserId reg u = map_option fst (find P reg)"
  unfolding findSocketIdByUserId_find
  by (rule arg_cong[where f = "map_option fst"], rule find_cong_set) simp

text \<open>
  C9, as amended. When the stored user ids and the argument are decimal ids (numbers,
  or text of signed decimal digits), \<^verbatim>\<open>findSocketIdByUserId\<close> returns the first entry, in
  the registry's order, whose stored id equals the argument as \<^verbatim>\<open>==\<close> compares them,
  and nothing when there is none: a number equals a number or a text of the same
  numeric value, and a text equals a text only when they are the same text. So when
  the stored ids are in canonical form, a canonical argument finds the first entry of
  the same numeric value, and a number and its decimal text find the same entry; and a
  stored text is not found by a different text, whatever their values.
\<close>

theorem findSocketIdByUserId_loose:
  "((\<forall>e \<in> set reg. decimal_id (userId (snd e))) \<and> decimal_id uid \<longrightarrow>
       findSocketIdByUserId reg uid
         = map_option fst (find (\<lambda>e. id_matches (userId (snd e)) uid) reg))
   \<and> ((\<forall>e \<in> set reg. canonical_id (userId (snd e))) \<longrightarrow>
        (canonical_id uid \<longrightarrow>
           findSocketIdByUserId reg uid
             = map_option fst (find (\<lambda>e. to_number (userId (snd e)) = to_number uid) reg))
        \<and> (safe_int n \<longrightarrow>
             findSocketIdByUserId reg (JStr (int_to_string n)) = findSocketIdByUserId reg (JNum n)))
   \<and> (s \<noteq> t \<longrightarrow> findSocketIdByUserId [(sid, ud\<lparr>userId := JStr s\<rparr>)] (JStr t) = None)"
proof (intro conjI impI)
  assume "(\<forall>e \<in> set reg. decimal_id (userId (snd e))) \<and> decimal_id uid"
  then show "findSocketIdByUserId reg uid
         = map_option fst (find (\<lambda>e. id_matches (userId (snd e)) uid) reg)"
    by (intro findSocketIdByUserId_cong_pred) (simp add: loose_eq_decimal)
next
  assume c: "\<forall>e \<in> set reg. canonical_id (userId (snd e))" and u: "canonical_id uid"
  then show "findSocketIdByUserId reg uid
             = map_option fst (find (\<lambda>e. to_number (userId (snd e)) = to_number uid) reg)"
    by (intro findSocketIdByUserId_cong_pred)
      (simp add: loose_eq_decimal canonical_decimal_id id_matches_canonical)
next
  assume c: "\<forall>e \<in> set reg. canonical_id (userId (snd e))" and n: "safe_int n"
  have t: "canonical_id (JStr (int_to_string n))" "canonical_id (JNum n)"
    using n by (simp_all add: string_to_number_int_to_string)
  have tn: "to_number (JStr (int_to_string n)) = Some n"
    by (simp add: string_to_number_int_to_string)
  have "\<And>e. e \<in> set reg \<Longrightarrow>
          loose_eq (userId (snd e)) (JStr (int_to_string n)) = (to_number (userId (snd e)) = Some n)"
    using c loose_eq_canonical[OF _ t(1)] tn by (simp del: canonical_id.simps to_number.simps)
  then have "findSocketIdByUserId reg (JStr (int_to_string n))
          = map_option fst (find (\<lambda>e. to_number (userId (snd e)) = Some n) reg)"
    by (rule findSocketIdByUserId_cong_pred)
  moreover have "\<And>e. e \<in> set reg \<Longrightarrow>
          loose_eq (userId (snd e)) (JNum n) = (to_number (userId (snd e)) = Some n)"
    using c loose_eq_canonical[OF _ t(2)] by (simp del: canonical_id.simps)
  then have "findSocketIdByUserId reg (JNum n)
          = map_option fst (find (\<lambda>e. to_number (userId (snd e)) = Some n) reg)"
    by (rule findSocketIdByUserId_cong_pred)
  ultimately show "findSocketIdByUserId reg (JStr (int_to_string n)) = findSocketIdByUserId reg (JNum n)"
    by simp
next
  assume "s \<noteq> t"
  then show "findSocketIdByUserId [(sid, ud\<lparr>userId := JStr s\<rparr>)] (JStr t) = None"
    by simp
qed

theorem findSocketIdByUserId_witness:
  "decimal_id (JStr ''5'') \<and> decimal_id (JNum 5) \<and> canonical_id (JStr ''5'')
   \<and> canonical_id (JNum 5) \<and> safe_int 5
   \<and> findSocketIdByUserId
     [(''s1'', \<lparr>socketId = ''s1'', userId = JStr ''5'', userName = ''Ann'', online = True\<rparr>),
      (''s2'', \<lparr>socketId = ''s2'', userId = JNum 5, userName = ''Ann'', online = True\<rparr>)] (JNum 5)
     = Some ''s1''
   \<and> findSocketIdByUserId
     [(''s1'', \<lparr>socketId = ''s1'', userId = JStr ''5'', userName = ''Ann'', online = True\<rparr>),
      (''s2'', \<lparr>socketId = ''s2'', userId = JNum 5, userName = ''Ann'', online = True\<rparr>)] (JStr ''5'')
     = Some ''s1''
   \<and> ''05'' \<noteq> ''5''
   \<and> findSocketIdByUserId
     [(''s1'', \<lparr>socketId = ''s1'', userId = JStr ''05'', userName = ''Ann'', online = True\<rparr>)]
     (JStr ''5'') = None"
proof -
  let ?reg = "[(''s1'', \<lparr>socketId = ''s1'', userId = JStr ''5'', userName = ''Ann'', online = True\<rparr>),
      (''s2'', \<lparr>socketId = ''s2'', userId = JNum 5, userName = ''Ann'', online = True\<rparr>)]"
  have s: "safe_int 5" by (simp add: safe_int_def)
  have d: "decimal_id (JStr ''5'')" "decimal_id (JNum 5)" "canonical_id (JStr ''5'')"
    "canonical_id (JNum 5)"
    using s by (simp_all add: string_to_number_5 int_to_string_5)
  have r: "\<forall>e \<in> set ?reg. decimal_id (userId (snd e))"
    using d by simp
  have 1: "findSocketIdByUserId ?reg (JNum 5) = Some ''s1''"
    using findSocketIdByUserId_loose[of ?reg "JNum 5", THEN conjunct1] r d(2)
    by (simp add: string_to_number_5)
  have 2: "findSocketIdByUserId ?reg (JStr ''5'') = Some ''s1''"
    using findSocketIdByUserId_loose[of ?reg "JStr ''5''", THEN conjunct1] r d(1)
    by (simp add: string_to_number_5)
  have 3: "findSocketIdByUserId
     [(''s1'', \<lparr>socketId = ''s1'', userId = JStr ''05'', userName = ''Ann'', online = True\<rparr>)]
     (JStr ''5'') = None"
    using findSocketIdByUserId_loose[of _ _ _ "''05''" "''5''" "''s1''"
        "\<lparr>socketId = ''s1'', userId = JStr ''05'', userName = ''Ann'', online = True\<rparr>"]
    by simp
  from s d 1 2 3 show ?thesis by simp
qed

text \<open>
  C9 as stated fails: the stored id \<^verbatim>\<open>"05"\<close> and the argument \<^verbatim>\<open>"5"\<close> have the same
  numeric value, and the look-up finds nothing.
\<close>

theorem findSocketIdByUserId_numeric_counterexample:
  "to_number (JStr ''05'') = Some 5 \<and> to_number (JStr ''5'') = Some 5
   \<and> findSocketIdByUserId
        [(''s1'', \<lparr>socketId = ''s1'', userId = JStr ''05'', userName = ''Ann'', online = True\<rparr>)]
        (JStr ''5'') = None"
  by (simp add: string_to_number_5 string_to_number_05)

section \<open>Events from a connection that has not identified itself\<close>

text \<open>
  C10. When the registry has no entry for the connection, each of \<^verbatim>\<open>create-group\<close>,
  \<^verbatim>\<open>group-message\<close>, \<^verbatim>\<open>leave-group\<close>, \<^verbatim>\<open>remove-group-member\<close>,
  \<^verbatim>\<open>add-group-members\<close> and \<^verbatim>\<open>request-groups\<close> leaves the whole state as it was: no
  query reaches the store, no room changes and nothing is sent.
\<close>

theorem unidentified_noop:
  assumes "map_of (connectedUsers st) sid = None"
  shows "createGroup now sid groupName memberIds st = st
       \<and> groupMessage sid groupId message st = st
       \<and> leaveGroup sid groupId st = st
       \<and> removeGroupMember sid groupId uid st = st
       \<and> addGroupMembers sid groupId userIds st = st
       \<and> requestGroups sid st = st"
  using assms
  by (simp add: createGroup_def groupMessage_def leaveGroup_def removeGroupMember_def
      addGroupMembers_def requestGroups_def)

theorem unidentified_noop_witness:
  "map_of (connectedUsers demo_state) ''sC'' = None
   \<and> createGroup 1700 ''sC'' ''Team'' (Some [JNum 1]) demo_state = demo_state
   \<and> groupMessage ''sC'' ''group_1700'' ''hi'' demo_state = demo_state
   \<and> leaveGroup ''sC'' ''group_1700'' demo_state = demo_state
   \<and> removeGroupMember ''sC'' ''group_1700'' (JNum 1) demo_state = demo_state
   \<and> addGroupMembers ''sC'' ''group_1700'' [JNum 3] demo_state = demo_state
   \<and> requestGroups ''sC'' demo_state = demo_state"
proof -
  have a: "map_of (connectedUsers demo_state) ''sC'' = None"
    by (simp add: demo_state_def)
  show ?thesis
    using unidentified_noop[OF a, of 1700 "''Team''" "Some [JNum 1]" "''group_1700''" "''hi''"
        "JNum 1" "[JNum 3]"] a
    by simp
qed

section \<open>What the store answers\<close>


lemma exec_ok:
  assumes "exec q s = (Inr x, s')"
  shows "\<exists>s0. q s0 = (Inr x, s') \<and> (s0 = s \<or> (\<exists>fs. faults s = None # fs \<and> s0 = s\<lparr>faults := fs\<rparr>))"
  using assms
  by (auto simp: exec_def split: list.splits option.splits)



lemma insert_message_row_ok:
  assumes "insert_message_row flag uid content room s = (Inr i, s')"
  shows "\<exists>n. sql_int uid = Some n \<and> i = Suc (msg_seq s) \<and>
           s' = s\<lparr>messages := messages s @
                     [\<lparr>m_id = i, m_user_id = n, m_content = content, m_room_id = room,
                       m_is_group = flag\<rparr>],
                   msg_seq := i\<rparr>"
  using assms
  by (auto simp: insert_message_row_def split: if_splits option.splits)


lemma insert_message_persists:
  assumes "insert_message uid content room s = (Inr i, s')"
  shows "0 < i \<and> (\<exists>row \<in> set (messages s'). m_id row = i \<and> m_content row = content
                     \<and> m_room_id row = room \<and> Some (m_user_id row) = sql_int uid)"
proof -
  from assms obtain s0 where "insert_message_row False uid content room s0 = (Inr i, s')"
    unfolding insert_message_def by (blast dest: exec_ok)
  then show ?thesis by (auto dest!: insert_message_row_ok)
qed

lemma insert_message_is_group_persists:
  assumes "insert_message_is_group uid content room s = (Inr i, s')"
  shows "0 < i \<and> (\<exists>row \<in> set (messages s'). m_id row = i \<and> m_content row = content
                     \<and> m_room_id row = room \<and> Some (m_user_id row) = sql_int uid)"
proof -
  from assms obtain s0 where "insert_message_row True uid content room s0 = (Inr i, s')"
    unfolding insert_message_is_group_def by (blast dest: exec_ok)
  then show ?thesis by (auto dest!: insert_message_row_ok)
qed




lemma insert_group_ok:
  assumes "insert_group name creator gid s = (Inr i, d1)"
  shows "\<exists>n. sql_int creator = Some n
           \<and> chat_groups d1 = chat_groups s @
                [\<lparr>g_id = i, g_name = name, g_creator_id = n, g_group_id = gid\<rparr>]
           \<and> group_members d1 = group_members s \<and> users d1 = users s"
  using assms
  by (auto simp: insert_group_def exec_def split: list.splits option.splits if_splits)

lemma insert_group_duplicate:
  assumes "gid \<in> g_group_id ` set (chat_groups s)"
  shows "\<exists>e. insert_group name creator gid s = (Inl e, s\<lparr>faults := tl (faults s)\<rparr>)"
  using assms
  by (auto simp: insert_group_def exec_def split: list.splits option.splits)

lemma insert_members_ok:
  assumes "insert_members vals d1 = (Inr u, d2)"
  shows "\<exists>rows. member_values vals = Some rows \<and> distinct rows
           \<and> (\<forall>r \<in> set rows. r \<notin> set (group_members d1))
           \<and> group_members d2 = group_members d1 @ rows
           \<and> chat_groups d2 = chat_groups d1"
  using assms
  by (auto simp: insert_members_def exec_def list_ex_iff
      split: list.splits option.splits if_splits)

lemma insert_members_chat_groups:
  "insert_members vals s = (r, s') \<Longrightarrow> chat_groups s' = chat_groups s"
  by (auto simp: insert_members_def exec_def split: list.splits option.splits if_splits)

lemma member_values_rows:
  "member_values (map (\<lambda>m. (g, m)) ms) = Some rows \<Longrightarrow>
     \<forall>m \<in> set ms. \<exists>n. sql_int m = Some n \<and> (g, n) \<in> set rows"
proof (induction ms arbitrary: rows)
  case Nil
  then show ?case by simp
next
  case (Cons m ms)
  then show ?case by (fastforce split: option.splits)
qed

lemma count_list_once:
  "distinct rows \<Longrightarrow> x \<in> set rows \<Longrightarrow> x \<notin> set old \<Longrightarrow> count_list (old @ rows) x = 1"
proof -
  assume d: "distinct rows" and x: "x \<in> set rows" and o: "x \<notin> set old"
  have "count_list rows x = 1"
    using d x by (induction rows) auto
  moreover have "count_list old x = 0"
    using o by (simp add: count_list_0_iff)
  ultimately show ?thesis by simp
qed

lemma select_user_groups_includes:
  assumes "select_user_groups v s = (Inr rows, s')"
    and "sql_int v = Some n" and "(g, n) \<in> set (group_members s)"
    and "g \<in> g_group_id ` set (chat_groups s)"
  shows "g \<in> fst ` set rows"
proof -
  have "rows = map (\<lambda>r. (g_group_id r, g_name r, g_creator_id r,
                               length (filter (\<lambda>(g, n). g = g_group_id r) (group_members s))))
                         (filter (\<lambda>r. (g_group_id r, n) \<in> set (group_members s)) (chat_groups s))"
    using assms(1,2)
    by (auto simp: select_user_groups_def exec_def split: list.splits option.splits)
  then show ?thesis
    using assms(3,4) by (force simp: image_iff)
qed

lemma select_user_groups_no_faults:
  "faults s = [] \<Longrightarrow> \<exists>rows. select_user_groups v s = (Inr rows, s)"
  by (simp add: select_user_groups_def exec_def)







section \<open>Direct messages\<close>

text \<open>
  C3. Whatever the store answers to the insert, \<^verbatim>\<open>private-message\<close> then sends the
  message to the recipient's connection when the registry has one for \<^verbatim>\<open>toUserId\<close>,
  and then acknowledges to the sender with \<^verbatim>\<open>message-sent\<close>, carrying the id of the
  inserted row when the insert succeeded and \<^verbatim>\<open>null\<close> when it failed.
\<close>

theorem privateMessage_delivery_and_ack:
  assumes "insert_message fromUserId message (privateRoomId fromUserId toUserId) (db st) = (result, d)"
  shows "privateMessage sid toUserId fromUserId fromUserName message st =
           st\<lparr>db := d,
              log := log st @ [Query InsertMessage]
                @ (case findSocketIdByUserId (connectedUsers st) toUserId of
                     None \<Rightarrow> []
                   | Some r \<Rightarrow> [IoTo r (room_sockets st r)
                                   (PrivateMessage fromUserId fromUserName message)])
                @ [SocketEmit sid
                     (MessageSent toUserId message
                        (case result of Inl err \<Rightarrow> None | Inr insertId \<Rightarrow> Some insertId))]\<rparr>
         \<and> (\<forall>r. findSocketIdByUserId (connectedUsers st) toUserId = Some r \<and> (r, r) \<in> set (rooms st)
                \<longrightarrow> r \<in> set (room_sockets st r))
         \<and> (\<forall>insertId. result = Inr insertId \<longrightarrow>
               (\<exists>row \<in> set (messages d). m_id row = insertId \<and> m_content row = message
                   \<and> m_room_id row = privateRoomId fromUserId toUserId))"
proof (intro conjI allI impI)
  show "privateMessage sid toUserId fromUserId fromUserName message st =
           st\<lparr>db := d,
              log := log st @ [Query InsertMessage]
                @ (case findSocketIdByUserId (connectedUsers st) toUserId of
                     None \<Rightarrow> []
                   | Some r \<Rightarrow> [IoTo r (room_sockets st r)
                                   (PrivateMessage fromUserId fromUserName message)])
                @ [SocketEmit sid
                     (MessageSent toUserId message
                        (case result of Inl err \<Rightarrow> None | Inr insertId \<Rightarrow> Some insertId))]\<rparr>"
    using assms
    by (simp add: privateMessage_def db_query_def Let_def io_to_emit_def socket_emit_def
        room_sockets_def split: option.splits sum.splits)
next
  fix r
  assume "findSocketIdByUserId (connectedUsers st) toUserId = Some r \<and> (r, r) \<in> set (rooms st)"
  then show "r \<in> set (room_sockets st r)"
    by (force simp: room_sockets_def)
next
  fix insertId
  assume "result = Inr insertId"
  with assms show "\<exists>row \<in> set (messages d). m_id row = insertId \<and> m_content row = message
                   \<and> m_room_id row = privateRoomId fromUserId toUserId"
    using insert_message_persists by blast
qed

theorem privateMessage_witness:
  "insert_message (JNum 1) ''hi'' (privateRoomId (JNum 1) (JNum 2))
      (db (demo_state\<lparr>db := demo_store\<lparr>faults := [Some connection_lost]\<rparr>\<rparr>))
     = (Inl connection_lost, demo_store)
   \<and> findSocketIdByUserId (connectedUsers demo_state) (JNum 2) = Some ''sB''
   \<and> log (privateMessage ''sA'' (JNum 2) (JNum 1) ''Ann'' ''hi''
            (demo_state\<lparr>db := demo_store\<lparr>faults := [Some connection_lost]\<rparr>\<rparr>))
     = [Query InsertMessage, IoTo ''sB'' [''sB''] (PrivateMessage (JNum 1) ''Ann'' ''hi''),
        SocketEmit ''sA'' (MessageSent (JNum 2) ''hi'' None)]"
proof -
  have a: "insert_message (JNum 1) ''hi'' (privateRoomId (JNum 1) (JNum 2))
      (db (demo_state\<lparr>db := demo_store\<lparr>faults := [Some connection_lost]\<rparr>\<rparr>))
     = (Inl connection_lost, demo_store)"
    by (simp add: insert_message_def exec_def demo_store_def)
  have b: "findSocketIdByUserId (connectedUsers demo_state) (JNum 2) = Some ''sB''"
    by (simp add: demo_state_def string_to_number_2)
  show ?thesis
    using privateMessage_delivery_and_ack[OF a, of "''sA''" "''Ann''"] a b
    by (simp add: demo_state_def room_sockets_def)
qed

section \<open>Group messages\<close>

lemma rejoined_fields:
  "db (rejoined sid g st) = db st"
  "connectedUsers (rejoined sid g st) = connectedUsers st"
  "sockets (rejoined sid g st) = sockets st"
  "log (rejoined sid g st) = log st @ (if g \<in> set (socket_rooms st sid) then [] else [Join sid g])"
  by (simp_all add: rejoined_def socket_join_def)

lemma rejoined_room:
  "set (room_sockets (rejoined sid g st) g) = insert sid (set (room_sockets st g))"
  by (auto simp: rejoined_def socket_join_def room_sockets_def socket_rooms_def image_iff)

lemma rejoined_rooms:
  "set (rooms (rejoined sid g st)) = insert (sid, g) (set (rooms st))"
  by (auto simp: rejoined_def socket_join_def socket_rooms_def image_iff)


lemma room_sockets_db_update [simp]: "room_sockets (st\<lparr>db := x\<rparr>) g = room_sockets st g"
  by (simp add: room_sockets_def)

lemma groupMessage_unfold:
  assumes "map_of (connectedUsers st) sid = Some ud"
  shows "groupMessage sid g msg st =
     (case db_query InsertMessageIsGroup (insert_message_is_group (userId ud) msg g) (rejoined sid g st) of
        (Inl err, st1) \<Rightarrow>
          if code err = ''ER_BAD_FIELD_ERROR'' then
            (case sqlMessage err of
               None \<Rightarrow> st1\<lparr>log := log st1 @ [Uncaught ''TypeError'']\<rparr>
             | Some m \<Rightarrow>
                 if includes_str m ''is_group'' then
                   (case db_query InsertMessage (insert_message (userId ud) msg g) st1 of
                      (Inl err2, st2) \<Rightarrow> st2
                    | (Inr insertId, st2) \<Rightarrow> sendGroupMessage insertId g ud msg st2)
                 else st1)
          else st1
      | (Inr insertId, st1) \<Rightarrow> sendGroupMessage insertId g ud msg st1)"
  using assms by (simp add: groupMessage_def rejoined_def Let_def)

lemma groupMessage_primary_ok:
  assumes "map_of (connectedUsers st) sid = Some ud"
    and "insert_message_is_group (userId ud) msg g (db st) = (Inr i, d)"
  shows "groupMessage sid g msg st =
     (rejoined sid g st)\<lparr>db := d,
        log := log (rejoined sid g st) @
          [Query InsertMessageIsGroup,
           IoTo g (room_sockets (rejoined sid g st) g)
             (GroupMessage i g (userId ud) (userName ud) msg)]\<rparr>"
  using assms(2)
  by (simp add: groupMessage_unfold[OF assms(1)] db_query_def rejoined_fields
      sendGroupMessage_def io_to_emit_def room_sockets_def)

lemma groupMessage_fallback_ok:
  assumes "map_of (connectedUsers st) sid = Some ud"
    and "insert_message_is_group (userId ud) msg g (db st) = (Inl err, d1)"
    and "names_is_group err"
    and "insert_message (userId ud) msg g d1 = (Inr i, d)"
  shows "groupMessage sid g msg st =
     (rejoined sid g st)\<lparr>db := d,
        log := log (rejoined sid g st) @
          [Query InsertMessageIsGroup, Query InsertMessage,
           IoTo g (room_sockets (rejoined sid g st) g)
             (GroupMessage i g (userId ud) (userName ud) msg)]\<rparr>"
  using assms(2-4)
  by (auto simp: groupMessage_unfold[OF assms(1)] db_query_def rejoined_fields names_is_group_def
      sendGroupMessage_def io_to_emit_def room_sockets_def split: option.splits)





lemma demo_identified:
  "map_of (connectedUsers demo_state) ''sA''
     = Some \<lparr>socketId = ''sA'', userId = JNum 1, userName = ''Ann'', online = True\<rparr>"
  "map_of (connectedUsers demo_state) ''sB''
     = Some \<lparr>socketId = ''sB'', userId = JStr ''2'', userName = ''Bo'', online = True\<rparr>"
  "map_of (connectedUsers demo_state) ''sC'' = None"
  by (simp_all add: demo_state_def)

text \<open>
  C1. On \<^verbatim>\<open>group-message\<close> from an identified connection the handler first joins the
  sender's connection to the room of the group when it is not in it, whatever the
  membership table says (no query precedes the join). When the insert succeeds, on the
  first try or on the retry without the column, the handler then, and only then, sends
  the message to every connection that is in the room, the sender among them, with the
  id the store gave the inserted row.
\<close>

theorem groupMessage_persist_then_broadcast:
  assumes "map_of (connectedUsers st) sid = Some ud"
    and "(insert_message_is_group (userId ud) msg g (db st) = (Inr i, d)
            \<and> queries = [Query InsertMessageIsGroup])
         \<or> (\<exists>err d1. insert_message_is_group (userId ud) msg g (db st) = (Inl err, d1)
               \<and> names_is_group err
               \<and> insert_message (userId ud) msg g d1 = (Inr i, d)
               \<and> queries = [Query InsertMessageIsGroup, Query InsertMessage])"
  shows "groupMessage sid g msg st =
           (rejoined sid g st)\<lparr>db := d,
              log := log (rejoined sid g st) @ queries @
                [IoTo g (room_sockets (rejoined sid g st) g)
                   (GroupMessage i g (userId ud) (userName ud) msg)]\<rparr>
       \<and> log (rejoined sid g st)
           = log st @ (if g \<in> set (socket_rooms st sid) then [] else [Join sid g])
       \<and> set (rooms (rejoined sid g st)) = insert (sid, g) (set (rooms st))
       \<and> set (room_sockets (rejoined sid g st) g) = insert sid (set (room_sockets st g))
       \<and> (\<exists>row \<in> set (messages d). m_id row = i \<and> m_room_id row = g \<and> m_content row = msg)"
proof -
  from assms(2) have eq: "groupMessage sid g msg st =
           (rejoined sid g st)\<lparr>db := d,
              log := log (rejoined sid g st) @ queries @
                [IoTo g (room_sockets (rejoined sid g st) g)
                   (GroupMessage i g (userId ud) (userName ud) msg)]\<rparr>"
    by (auto simp: groupMessage_primary_ok[OF assms(1)] groupMessage_fallback_ok[OF assms(1)])
  from assms(2) have row: "\<exists>row \<in> set (messages d). m_id row = i \<and> m_room_id row = g \<and> m_content row = msg"
    using insert_message_persists insert_message_is_group_persists by blast
  show ?thesis
    using eq row by (simp add: rejoined_fields rejoined_room rejoined_rooms)
qed

theorem groupMessage_witness:
  "map_of (connectedUsers demo_state) ''sB''
     = Some \<lparr>socketId = ''sB'', userId = JStr ''2'', userName = ''Bo'', online = True\<rparr>
   \<and> insert_message_is_group (JStr ''2'') ''hi'' ''group_1700'' (db demo_state)
     = (Inr 1, demo_store\<lparr>messages := [\<lparr>m_id = 1, m_user_id = 2, m_content = ''hi'',
                                          m_room_id = ''group_1700'', m_is_group = True\<rparr>],
                          msg_seq := 1\<rparr>)
   \<and> log (groupMessage ''sB'' ''group_1700'' ''hi'' demo_state)
     = [Join ''sB'' ''group_1700'', Query InsertMessageIsGroup,
        IoTo ''group_1700'' [''sB''] (GroupMessage 1 ''group_1700'' (JStr ''2'') ''Bo'' ''hi'')]"
proof -
  have a: "map_of (connectedUsers demo_state) ''sB''
     = Some \<lparr>socketId = ''sB'', userId = JStr ''2'', userName = ''Bo'', online = True\<rparr>"
    by (rule demo_identified)
  have b: "insert_message_is_group
             (userId \<lparr>socketId = ''sB'', userId = JStr ''2'', userName = ''Bo'', online = True\<rparr>)
             ''hi'' ''group_1700'' (db demo_state)
     = (Inr 1, demo_store\<lparr>messages := [\<lparr>m_id = 1, m_user_id = 2, m_content = ''hi'',
                                          m_room_id = ''group_1700'', m_is_group = True\<rparr>],
                          msg_seq := 1\<rparr>)"
    by (simp add: insert_message_is_group_def exec_def insert_message_row_def
        string_to_number_2 int_to_string_2 demo_state_def demo_store_def user_exists_def)
  have c: "log (rejoined ''sB'' ''group_1700'' demo_state) = [Join ''sB'' ''group_1700'']"
    by (simp add: rejoined_def socket_join_def socket_rooms_def demo_state_def)
  have d: "room_sockets (rejoined ''sB'' ''group_1700'' demo_state) ''group_1700'' = [''sB'']"
    by (simp add: rejoined_def socket_join_def socket_rooms_def room_sockets_def demo_state_def)
  have "log (groupMessage ''sB'' ''group_1700'' ''hi'' demo_state)
     = [Join ''sB'' ''group_1700'', Query InsertMessageIsGroup,
        IoTo ''group_1700'' [''sB''] (GroupMessage 1 ''group_1700'' (JStr ''2'') ''Bo'' ''hi'')]"
    using groupMessage_persist_then_broadcast
      [OF a, of "''hi''" "''group_1700''" 1 _ "[Query InsertMessageIsGroup]"] b
    by (simp add: c d)
  with a b show ?thesis by simp
qed

section \<open>The fallback for a store without the optional column\<close>







section \<open>The creator check\<close>











section \<open>Creating a group\<close>

lemma notify_member_db: "db (notify_member sid g obj st m) = db st"
  by (simp add: notify_member_def io_to_emit_def socket_join_def Let_def split: option.splits)

lemma foldl_notify_member_db: "db (foldl (notify_member sid g obj) st ms) = db st"
  by (induction ms arbitrary: st) (simp_all add: notify_member_db)

lemma createGroup_db:
  assumes "map_of (connectedUsers st) sid = Some ud"
    and "insert_group name (userId ud) (newGroupId now) (db st) = (Inr gid, d1)"
    and "insert_members (map (\<lambda>m. (newGroupId now, m)) (members_with_creator (userId ud) L)) d1
           = (Inr u, d2)"
  shows "db (createGroup now sid name L st) = d2"
  using assms
  by (simp add: createGroup_def db_query_def members_with_creator_def Let_def
      foldl_notify_member_db io_to_emit_def socket_join_def)

lemma set_members_with_creator:
  "set (members_with_creator c L) = insert c (case L of None \<Rightarrow> {} | Some ms \<Rightarrow> set ms)"
  by (auto simp: members_with_creator_def Let_def split: option.splits)

lemma newGroupId_1700: "newGroupId 1700 = ''group_1700''"
  by code_simp

text \<open>
  C5. When both inserts of \<^verbatim>\<open>create-group\<close> succeed, the membership table has exactly
  one row of the new group for every user of the invite list and for the creator,
  whether the creator was on the list or not, and the query for the groups of any of
  these users, when the store answers it, lists the new group.
\<close>

theorem createGroup_memberships:
  assumes "map_of (connectedUsers st) sid = Some ud"
    and "insert_group name (userId ud) (newGroupId now) (db st) = (Inr gid, d1)"
    and "insert_members (map (\<lambda>m. (newGroupId now, m)) (members_with_creator (userId ud) L)) d1
           = (Inr u, d2)"
  shows "db (createGroup now sid name L st) = d2
       \<and> set (members_with_creator (userId ud) L)
           = insert (userId ud) (case L of None \<Rightarrow> {} | Some ms \<Rightarrow> set ms)
       \<and> (\<forall>v \<in> set (members_with_creator (userId ud) L).
             \<exists>n. sql_int v = Some n \<and> count_list (group_members d2) (newGroupId now, n) = 1)
       \<and> (\<forall>v \<in> set (members_with_creator (userId ud) L).
             \<forall>rows d3. select_user_groups v d2 = (Inr rows, d3) \<longrightarrow> newGroupId now \<in> fst ` set rows)
       \<and> (faults d2 = [] \<longrightarrow> (\<forall>v. \<exists>rows. select_user_groups v d2 = (Inr rows, d2)))"
proof -
  let ?g = "newGroupId now" and ?ms = "members_with_creator (userId ud) L"
  from insert_group_ok[OF assms(2)] obtain c where
    g1: "chat_groups d1 = chat_groups (db st) @
           [\<lparr>g_id = gid, g_name = name, g_creator_id = c, g_group_id = ?g\<rparr>]"
    by blast
  from insert_members_ok[OF assms(3)] obtain rows where
    mv: "member_values (map (\<lambda>m. (?g, m)) ?ms) = Some rows" and dist: "distinct rows"
    and fresh: "\<forall>r \<in> set rows. r \<notin> set (group_members d1)"
    and m2: "group_members d2 = group_members d1 @ rows"
    and g2: "chat_groups d2 = chat_groups d1"
    by blast
  have each: "\<forall>v \<in> set ?ms. \<exists>n. sql_int v = Some n \<and> (?g, n) \<in> set rows"
    using member_values_rows[OF mv] .
  have one: "\<forall>v \<in> set ?ms. \<exists>n. sql_int v = Some n \<and> count_list (group_members d2) (?g, n) = 1"
  proof
    fix v assume "v \<in> set ?ms"
    with each obtain n where n: "sql_int v = Some n" "(?g, n) \<in> set rows" by blast
    with fresh have "(?g, n) \<notin> set (group_members d1)" by blast
    with dist n have "count_list (group_members d2) (?g, n) = 1"
      unfolding m2 by (intro count_list_once)
    with n show "\<exists>n. sql_int v = Some n \<and> count_list (group_members d2) (?g, n) = 1" by blast
  qed
  have listed: "\<forall>v \<in> set ?ms. \<forall>rs d3. select_user_groups v d2 = (Inr rs, d3) \<longrightarrow> ?g \<in> fst ` set rs"
  proof (intro ballI allI impI)
    fix v rs d3
    assume v: "v \<in> set ?ms" and q: "select_user_groups v d2 = (Inr rs, d3)"
    from each v obtain n where n: "sql_int v = Some n" "(?g, n) \<in> set rows" by blast
    have "(?g, n) \<in> set (group_members d2)" using n m2 by simp
    moreover have "?g \<in> g_group_id ` set (chat_groups d2)" by (simp add: g2 g1)
    ultimately show "?g \<in> fst ` set rs"
      using select_user_groups_includes[OF q n(1)] by blast
  qed
  show ?thesis
    using createGroup_db[OF assms] one listed select_user_groups_no_faults
    by (simp only: set_members_with_creator) blast
qed

theorem createGroup_witness:
  "map_of (connectedUsers demo_state) ''sA''
     = Some \<lparr>socketId = ''sA'', userId = JNum 1, userName = ''Ann'', online = True\<rparr>
   \<and> insert_group ''Team'' (JNum 1) (newGroupId 1700) (db demo_state)
     = (Inr 1, demo_store\<lparr>chat_groups := [\<lparr>g_id = 1, g_name = ''Team'', g_creator_id = 1,
                                              g_group_id = ''group_1700''\<rparr>],
                          grp_seq := 1\<rparr>)
   \<and> insert_members
        (map (\<lambda>m. (newGroupId 1700, m)) (members_with_creator (JNum 1) (Some [JNum 1, JNum 2, JNum 3])))
        (demo_store\<lparr>chat_groups := [\<lparr>g_id = 1, g_name = ''Team'', g_creator_id = 1,
                                       g_group_id = ''group_1700''\<rparr>],
                    grp_seq := 1\<rparr>)
     = (Inr (), demo_store\<lparr>chat_groups := [\<lparr>g_id = 1, g_name = ''Team'', g_creator_id = 1,
                                               g_group_id = ''group_1700''\<rparr>],
                           grp_seq := 1,
                           group_members := [(''group_1700'', 1), (''group_1700'', 2),
                                             (''group_1700'', 3)]\<rparr>)
   \<and> group_members (db (createGroup 1700 ''sA'' ''Team'' (Some [JNum 1, JNum 2, JNum 3]) demo_state))
     = [(''group_1700'', 1), (''group_1700'', 2), (''group_1700'', 3)]
   \<and> select_user_groups (JNum 2)
        (db (createGroup 1700 ''sA'' ''Team'' (Some [JNum 1, JNum 2, JNum 3]) demo_state))
     = (Inr [(''group_1700'', ''Team'', 1, 3)],
        db (createGroup 1700 ''sA'' ''Team'' (Some [JNum 1, JNum 2, JNum 3]) demo_state))"
proof -
  let ?ann = "\<lparr>socketId = ''sA'', userId = JNum 1, userName = ''Ann'', online = True\<rparr>"
  let ?d1 = "demo_store\<lparr>chat_groups := [\<lparr>g_id = 1, g_name = ''Team'', g_creator_id = 1,
                                              g_group_id = ''group_1700''\<rparr>],
                          grp_seq := 1\<rparr>"
  let ?d2 = "demo_store\<lparr>chat_groups := [\<lparr>g_id = 1, g_name = ''Team'', g_creator_id = 1,
                                               g_group_id = ''group_1700''\<rparr>],
                           grp_seq := 1,
                           group_members := [(''group_1700'', 1), (''group_1700'', 2),
                                             (''group_1700'', 3)]\<rparr>"
  let ?L = "Some [JNum 1, JNum 2, JNum 3]"
  have a: "map_of (connectedUsers demo_state) ''sA'' = Some ?ann"
    by (simp add: demo_state_def)
  have b: "insert_group ''Team'' (userId ?ann) (newGroupId 1700) (db demo_state) = (Inr 1, ?d1)"
    by (simp add: insert_group_def exec_def newGroupId_1700 demo_state_def demo_store_def
        user_exists_def)
  have c: "insert_members (map (\<lambda>m. (newGroupId 1700, m)) (members_with_creator (userId ?ann) ?L)) ?d1
             = (Inr (), ?d2)"
    by (simp add: insert_members_def exec_def newGroupId_1700 members_with_creator_def
        demo_store_def user_exists_def)
  have d: "db (createGroup 1700 ''sA'' ''Team'' ?L demo_state) = ?d2"
    using createGroup_memberships[OF a b c] by simp
  have e: "select_user_groups (JNum 2) ?d2 = (Inr [(''group_1700'', ''Team'', 1, 3)], ?d2)"
    by (simp add: select_user_groups_def exec_def demo_store_def)
  from a b c d e show ?thesis by simp
qed

section \<open>Group ids\<close>

lemma newGroupId_inj: "(newGroupId m = newGroupId n) = (m = n)"
  by (auto simp: newGroupId_def dest: dec_digits_inj)

lemma createGroup_chat_groups:
  assumes "map_of (connectedUsers st) sid = Some ud"
    and "insert_group name (userId ud) (newGroupId now) (db st) = (Inr gid, d1)"
  shows "chat_groups (db (createGroup now sid name L st)) = chat_groups d1"
proof -
  let ?vals = "map (\<lambda>m. (newGroupId now, m)) (members_with_creator (userId ud) L)"
  obtain r d2 where im: "insert_members ?vals d1 = (r, d2)"
    by (cases "insert_members ?vals d1")
  have "db (createGroup now sid name L st) = d2"
    using assms im
    by (cases r)
      (simp_all add: createGroup_def db_query_def members_with_creator_def Let_def
        foldl_notify_member_db io_to_emit_def socket_join_def socket_emit_def)
  then show ?thesis
    using insert_members_chat_groups[OF im] by simp
qed

lemma createGroup_duplicate_id:
  assumes "map_of (connectedUsers st) sid = Some ud"
    and "newGroupId now \<in> g_group_id ` set (chat_groups (db st))"
  shows "createGroup now sid name L st =
           st\<lparr>db := (db st)\<lparr>faults := tl (faults (db st))\<rparr>,
              log := log st @ [Query InsertGroup,
                               SocketEmit sid (GroupCreatedFailed ''Failed to create group'')]\<rparr>"
proof -
  from insert_group_duplicate[OF assms(2)] obtain e where
    "insert_group name (userId ud) (newGroupId now) (db st)
       = (Inl e, (db st)\<lparr>faults := tl (faults (db st))\<rparr>)"
    by blast
  then show ?thesis
    using assms(1)
    by (simp add: createGroup_def db_query_def Let_def socket_emit_def)
qed

text \<open>
  C8, as amended. The group id of \<^verbatim>\<open>create-group\<close> is \<^verbatim>\<open>group_\<close> followed by the
  clock reading in milliseconds: two invocations have the same id exactly when they are
  handled at the same reading. The group row that a \<^verbatim>\<open>create-group\<close> inserts carries
  that id, and a \<^verbatim>\<open>create-group\<close> whose id is already in \<^verbatim>\<open>chat_groups\<close> inserts
  nothing and reports \<^verbatim>\<open>Failed to create group\<close> to its caller.
\<close>

theorem newGroupId_by_clock:
  "(newGroupId m = newGroupId n) = (m = n)
   \<and> (map_of (connectedUsers st) sid = Some ud
        \<and> insert_group name (userId ud) (newGroupId now) (db st) = (Inr gid, d1)
      \<longrightarrow> newGroupId now \<in> g_group_id ` set (chat_groups (db (createGroup now sid name L st))))
   \<and> (map_of (connectedUsers st) sid = Some ud
        \<and> newGroupId now \<in> g_group_id ` set (chat_groups (db st))
      \<longrightarrow> createGroup now sid name L st =
            st\<lparr>db := (db st)\<lparr>faults := tl (faults (db st))\<rparr>,
               log := log st @ [Query InsertGroup,
                                SocketEmit sid (GroupCreatedFailed ''Failed to create group'')]\<rparr>)"
proof (intro conjI impI)
  show "(newGroupId m = newGroupId n) = (m = n)"
    by (rule newGroupId_inj)
next
  assume h: "map_of (connectedUsers st) sid = Some ud
        \<and> insert_group name (userId ud) (newGroupId now) (db st) = (Inr gid, d1)"
  then have "chat_groups (db (createGroup now sid name L st)) = chat_groups d1"
    using createGroup_chat_groups by blast
  moreover from h obtain c where "chat_groups d1 = chat_groups (db st) @
           [\<lparr>g_id = gid, g_name = name, g_creator_id = c, g_group_id = newGroupId now\<rparr>]"
    using insert_group_ok by blast
  ultimately show "newGroupId now \<in> g_group_id ` set (chat_groups (db (createGroup now sid name L st)))"
    by simp
next
  assume "map_of (connectedUsers st) sid = Some ud
        \<and> newGroupId now \<in> g_group_id ` set (chat_groups (db st))"
  then show "createGroup now sid name L st =
            st\<lparr>db := (db st)\<lparr>faults := tl (faults (db st))\<rparr>,
               log := log st @ [Query InsertGroup,
                                SocketEmit sid (GroupCreatedFailed ''Failed to create group'')]\<rparr>"
    using createGroup_duplicate_id by blast
qed

theorem newGroupId_by_clock_witness:
  "map_of (connectedUsers demo_group_state) ''sB''
     = Some \<lparr>socketId = ''sB'', userId = JStr ''2'', userName = ''Bo'', online = True\<rparr>
   \<and> newGroupId 1700 \<in> g_group_id ` set (chat_groups (db demo_group_state))
   \<and> createGroup 1700 ''sB'' ''Club'' None demo_group_state
     = demo_group_state
         \<lparr>log := [Query InsertGroup,
                  SocketEmit ''sB'' (GroupCreatedFailed ''Failed to create group'')]\<rparr>
   \<and> newGroupId 1700 \<noteq> newGroupId 1701"
proof -
  have a: "map_of (connectedUsers demo_group_state) ''sB''
     = Some \<lparr>socketId = ''sB'', userId = JStr ''2'', userName = ''Bo'', online = True\<rparr>"
    by (simp add: demo_group_state_def demo_state_def)
  have b: "newGroupId 1700 \<in> g_group_id ` set (chat_groups (db demo_group_state))"
    by (simp add: newGroupId_1700 demo_group_state_def demo_state_def demo_store_def)
  have d: "demo_group_state\<lparr>db := (db demo_group_state)\<lparr>faults := tl (faults (db demo_group_state))\<rparr>,
             log := log demo_group_state @ [Query InsertGroup,
                  SocketEmit ''sB'' (GroupCreatedFailed ''Failed to create group'')]\<rparr>
           = demo_group_state\<lparr>log := [Query InsertGroup,
                  SocketEmit ''sB'' (GroupCreatedFailed ''Failed to create group'')]\<rparr>"
    by (simp add: demo_group_state_def demo_state_def demo_store_def)
  have "createGroup 1700 ''sB'' ''Club'' None demo_group_state
     = demo_group_state
         \<lparr>log := [Query InsertGroup,
                  SocketEmit ''sB'' (GroupCreatedFailed ''Failed to create group'')]\<rparr>"
    using newGroupId_by_clock[of 1700 1701 demo_group_state "''sB''" _ "''Club''" 1700 _ _ None] a b
    by (simp add: d)
  moreover have "newGroupId 1700 \<noteq> newGroupId 1701"
    using newGroupId_by_clock[of 1700 1701] by simp
  ultimately show ?thesis using a b by simp
qed

text \<open>
  C8 as stated fails: Ann and Bo both send \<^verbatim>\<open>create-group\<close> and both events are
  handled at clock reading 1700. Both invocations compute the id \<^verbatim>\<open>group_1700\<close>; Ann's
  group is created, and Bo's insert is refused because the id is taken.
\<close>

theorem newGroupId_same_millisecond_counterexample:
  "newGroupId 1700 = ''group_1700''
   \<and> map g_group_id (chat_groups (db (createGroup 1700 ''sA'' ''Team'' None demo_state)))
     = [''group_1700'']
   \<and> log (createGroup 1700 ''sB'' ''Club'' None (createGroup 1700 ''sA'' ''Team'' None demo_state))
     = log (createGroup 1700 ''sA'' ''Team'' None demo_state)
       @ [Query InsertGroup, SocketEmit ''sB'' (GroupCreatedFailed ''Failed to create group'')]
   \<and> map g_group_id (chat_groups (db
        (createGroup 1700 ''sB'' ''Club'' None (createGroup 1700 ''sA'' ''Team'' None demo_state))))
     = [''group_1700'']"
proof -
  let ?S1 = "createGroup 1700 ''sA'' ''Team'' None demo_state"
  have a: "map_of (connectedUsers demo_state) ''sA''
     = Some \<lparr>socketId = ''sA'', userId = JNum 1, userName = ''Ann'', online = True\<rparr>"
    by (simp add: demo_state_def)
  have b: "insert_group ''Team''
             (userId \<lparr>socketId = ''sA'', userId = JNum 1, userName = ''Ann'', online = True\<rparr>)
             (newGroupId 1700) (db demo_state)
     = (Inr 1, demo_store\<lparr>chat_groups := [\<lparr>g_id = 1, g_name = ''Team'', g_creator_id = 1,
                                              g_group_id = ''group_1700''\<rparr>],
                          grp_seq := 1\<rparr>)"
    by (simp add: insert_group_def exec_def newGroupId_1700 demo_state_def demo_store_def
        user_exists_def)
  have c1: "chat_groups (db ?S1)
     = [\<lparr>g_id = 1, g_name = ''Team'', g_creator_id = 1, g_group_id = ''group_1700''\<rparr>]"
    using createGroup_chat_groups[OF a b, of None] by (simp add: demo_store_def)
  have cu: "connectedUsers ?S1 = connectedUsers demo_state"
    by (simp add: createGroup_def demo_state_def db_query_def Let_def notify_member_def
        io_to_emit_def socket_join_def socket_emit_def split: prod.splits sum.splits)
  have a1: "map_of (connectedUsers ?S1) ''sB''
     = Some \<lparr>socketId = ''sB'', userId = JStr ''2'', userName = ''Bo'', online = True\<rparr>"
    by (simp add: cu) (simp add: demo_state_def)
  have b1: "newGroupId 1700 \<in> g_group_id ` set (chat_groups (db ?S1))"
    by (simp add: c1 newGroupId_1700)
  note S2 = createGroup_duplicate_id[OF a1 b1, of "''Club''" None]
  show ?thesis
    by (simp add: newGroupId_1700 c1 S2)
qed

section \<open>Leaving a group\<close>







end
